theory Spec2Isabelle
  imports Main "HOL-Library.AList" "HOL-Library.Char_ord" "HOL-Library.List_Lexorder"
    "HOL-Library.Multiset" "HOL-Library.Word"
begin

section \<open>JavaScript values\<close>

text \<open>
  The JSON-shaped values the dashboard fetches, caches and renders. Numbers are the
  integers the data carries (ranks, team numbers, scores, HTTP status codes); an object
  is the list of its own properties, looked up with \<open>map_of\<close> and written with
  \<open>AList.update\<close>.
\<close>

datatype jsval =
    JUndefined
  | JNull
  | JBool bool
  | JNum int
  | JStr string
  | JArr "jsval list"
  | JObj "(string \<times> jsval) list"

datatype js_error =
    Error string
  | TypeError
  | SyntaxError
  | DOMException string

text \<open>A settled promise: the value an \<open>await\<close> yields, or the error it throws.\<close>

datatype 'a promise = Resolved 'a | Rejected js_error

text \<open>Truthiness, as \<open>!x\<close>, \<open>x || y\<close> and \<open>x ? a : b\<close> test it.\<close>

fun truthy :: "jsval \<Rightarrow> bool" where
  "truthy JUndefined = False"
| "truthy JNull = False"
| "truthy (JBool b) = b"
| "truthy (JNum n) = (n \<noteq> 0)"
| "truthy (JStr s) = (s \<noteq> [])"
| "truthy (JArr xs) = True"
| "truthy (JObj ps) = True"

text \<open>\<open>a || b\<close>\<close>

definition js_or :: "jsval \<Rightarrow> jsval \<Rightarrow> jsval" where
  "js_or a b = (if truthy a then a else b)"

fun dec_digits :: "nat \<Rightarrow> string" where
  "dec_digits n =
     (if n < 10 then [''0123456789'' ! n]
      else dec_digits (n div 10) @ [''0123456789'' ! (n mod 10)])"

definition num_to_string :: "int \<Rightarrow> string" where
  "num_to_string i =
     (if i < 0 then CHR ''-'' # dec_digits (nat (- i)) else dec_digits (nat i))"

text \<open>\<open>parts.join(sep)\<close> on strings.\<close>

fun join :: "string \<Rightarrow> string list \<Rightarrow> string" where
  "join sep [] = []"
| "join sep [x] = x"
| "join sep (x # y # ys) = x @ sep @ join sep (y # ys)"

text \<open>
  The string a template literal \<open>`${v}`\<close>, \<open>new Error(v)\<close> and
  \<open>Array.prototype.join\<close> make of a value. It is JavaScript's string for the
  values of \<open>exact_string_form\<close> below on which the conversion does not throw
  (\<open>to_string_throws\<close>); what is stated about a converted value carries these two
  conditions. Numbers with a fraction are not values of this model.
\<close>

fun ToString :: "jsval \<Rightarrow> string" where
  "ToString JUndefined = ''undefined''"
| "ToString JNull = ''null''"
| "ToString (JBool b) = (if b then ''true'' else ''false'')"
| "ToString (JNum n) = num_to_string n"
| "ToString (JStr s) = s"
| "ToString (JArr xs) =
     join '','' (map (\<lambda>x. if x = JUndefined \<or> x = JNull then [] else ToString x) xs)"
| "ToString (JObj ps) = ''[object Object]''"

text \<open>
  Converting an object to a string calls its \<open>toString\<close>. A parsed object inherits
  the one that yields \<open>[object Object]\<close>; when it has an own property
  \<open>toString\<close>, that property is data and cannot be called, the inherited
  \<open>valueOf\<close> yields no primitive, and the conversion throws a \<open>TypeError\<close>. An
  array converts its elements, \<open>null\<close> and \<open>undefined\<close> excepted.
\<close>

fun to_string_throws :: "jsval \<Rightarrow> bool" where
  "to_string_throws (JObj ps) = (map_of ps ''toString'' \<noteq> None)"
| "to_string_throws (JArr xs) =
     (\<exists>x \<in> set xs. x \<noteq> JUndefined \<and> x \<noteq> JNull \<and> to_string_throws x)"
| "to_string_throws v = False"

text \<open>
  A JavaScript number is a double. The integers up to \<open>2^53 - 1\<close> in magnitude are
  doubles and print as their decimal digits; beyond them an integer need not be a
  double, and prints rounded or with an exponent. \<open>exact_string_form v\<close> says that
  converting \<open>v\<close> prints only numbers of the first kind.
\<close>

fun exact_string_form :: "jsval \<Rightarrow> bool" where
  "exact_string_form (JNum n) = (\<bar>n\<bar> \<le> 9007199254740991)"
| "exact_string_form (JArr xs) = (\<forall>x \<in> set xs. exact_string_form x)"
| "exact_string_form v = True"

text \<open>
  \<open>v?.name\<close>: the property of an object, \<open>undefined\<close> on anything else. It is
  read at the names \<open>detail\<close>, \<open>info\<close>, \<open>name\<close>, \<open>status\<close> and
  \<open>year\<close> only, none of which a parsed value inherits.
\<close>

fun opt_prop :: "jsval \<Rightarrow> string \<Rightarrow> jsval" where
  "opt_prop (JObj ps) name = (case map_of ps name of None \<Rightarrow> JUndefined | Some v \<Rightarrow> v)"
| "opt_prop v name = JUndefined"


section \<open>cache.js: the IndexedDB-backed event cache\<close>

text \<open>
  A record of the object store \<open>events\<close>. The store was created with
  \<open>keyPath: 'event_key'\<close>, so a record's key is its \<open>event_key\<close> field. The
  \<open>data\<close> field is the snapshot object the application saves.
\<close>

record entry =
  event_key :: string
  saved_at :: int
  data :: "(string \<times> jsval) list"

type_synonym object_store = "entry list"

text \<open>
  The platform's object store, as far as the module uses it: \<open>get\<close>, \<open>put\<close>,
  \<open>delete\<close>, \<open>getAll\<close> (in key order) and \<open>clear\<close>. \<open>put\<close> replaces the
  record stored under the same key.
\<close>

definition store_get :: "string \<Rightarrow> object_store \<Rightarrow> entry option" where
  "store_get k st = find (\<lambda>r. event_key r = k) st"

definition store_put :: "entry \<Rightarrow> object_store \<Rightarrow> object_store" where
  "store_put r st = r # filter (\<lambda>x. event_key x \<noteq> event_key r) st"

definition store_delete :: "string \<Rightarrow> object_store \<Rightarrow> object_store" where
  "store_delete k st = filter (\<lambda>x. event_key x \<noteq> k) st"

definition store_getAll :: "object_store \<Rightarrow> entry list" where
  "store_getAll st = sort_key event_key st"

definition store_clear :: "object_store \<Rightarrow> object_store" where
  "store_clear st = []"

text \<open>
  What the storage does during one call of the module: the database opens and the
  request completes; or \<open>indexedDB.open\<close> fails (\<open>req.onerror\<close> in \<open>open()\<close>);
  or the database opens and the request or its transaction then fails
  (\<open>req.onerror\<close>, \<open>tx.onerror\<close>, or an exception inside the promise's executor).
\<close>

datatype idb_outcome =
    Completes
  | OpenFails js_error
  | RequestFails js_error

text \<open>\<open>open()\<close>: resolves with the database, or rejects with \<open>req.error\<close>.\<close>

definition idb_open :: "idb_outcome \<Rightarrow> unit promise" where
  "idb_open env = (case env of OpenFails e \<Rightarrow> Rejected e | _ \<Rightarrow> Resolved ())"

text \<open>
  The promise each function builds around its request, \<open>new Promise((resolve, reject) =>
  ...)\<close>: \<open>onsuccess\<close> or \<open>oncomplete\<close> resolves it with \<open>v\<close>, \<open>onerror\<close>
  rejects it. A write reaches the store only when its transaction completes.
\<close>

definition request_promise :: "idb_outcome \<Rightarrow> 'a \<Rightarrow> 'a promise" where
  "request_promise env v = (case env of RequestFails e \<Rightarrow> Rejected e | _ \<Rightarrow> Resolved v)"

definition commit :: "idb_outcome \<Rightarrow> object_store \<Rightarrow> object_store \<Rightarrow> object_store" where
  "commit env written st = (case env of Completes \<Rightarrow> written | _ \<Rightarrow> st)"

text \<open>
  Each function is \<open>try { const db = await open(); return new Promise(...) } catch { return
  fallback }\<close>. The \<open>await\<close> is inside the \<open>try\<close>, so a rejection of \<open>open()\<close>
  is caught and yields the fallback. The new promise is returned without \<open>await\<close>:
  the function's own promise settles as that promise does, and its rejection does not
  pass through the \<open>catch\<close>.
\<close>

definition EventCache_get :: "idb_outcome \<Rightarrow> string \<Rightarrow> object_store \<Rightarrow> entry option promise" where
  "EventCache_get env eventKey st =
     (case idb_open env of
        Rejected e \<Rightarrow> Resolved None
      | Resolved db \<Rightarrow> request_promise env (store_get eventKey st))"

definition EventCache_put ::
    "idb_outcome \<Rightarrow> int \<Rightarrow> string \<Rightarrow> (string \<times> jsval) list \<Rightarrow> object_store
      \<Rightarrow> bool promise \<times> object_store" where
  "EventCache_put env now eventKey d st =
     (case idb_open env of
        Rejected e \<Rightarrow> (Resolved False, st)
      | Resolved db \<Rightarrow>
          (request_promise env True,
           commit env (store_put \<lparr>event_key = eventKey, saved_at = now, data = d\<rparr> st) st))"

text \<open>
  \<open>obj[name] = v\<close> on an object read from the store, as far as the store will see
  it. The assignment writes the own property \<open>name\<close>, with one exception: for the
  name \<open>__proto__\<close>, unless the object has an own property of that name, it runs the
  accessor inherited from \<open>Object.prototype\<close>, which sets or leaves the object's
  prototype and writes no property; and \<open>put\<close> stores the own properties only.
\<close>

definition assign_property :: "string \<Rightarrow> jsval \<Rightarrow> (string \<times> jsval) list \<Rightarrow> (string \<times> jsval) list" where
  "assign_property name v ps =
     (if name = ''__proto__'' \<and> map_of ps ''__proto__'' = None then ps
      else AList.update name v ps)"

text \<open>
  \<open>patchTab\<close> awaits both calls inside its \<open>try\<close> (\<open>await get(eventKey)\<close>,
  \<open>return await put(...)\<close>), so a rejection of either is caught and becomes
  \<open>false\<close>. \<open>env_get\<close> and \<open>env_put\<close> are the storage's behaviour during the two
  calls, \<open>now_patch\<close> and \<open>now_put\<close> the two readings of \<open>Date.now()\<close>; the first
  is written to the local copy \<open>existing\<close> only.

  The read and the write are two transactions with an \<open>await\<close> between them.
  \<open>between\<close> is what other calls write to the store after this call has read and
  before it writes: \<open>id\<close> when the call runs alone. (The application starts
  \<open>autoCacheTab('info', info)\<close> and \<open>autoCacheTab('teams', teams)\<close> one after the
  other without awaiting the first, so there the two calls overlap.)
\<close>

definition EventCache_patchTab ::
    "idb_outcome \<Rightarrow> (object_store \<Rightarrow> object_store) \<Rightarrow> idb_outcome \<Rightarrow> int \<Rightarrow> int
      \<Rightarrow> string \<Rightarrow> string \<Rightarrow> jsval \<Rightarrow> object_store \<Rightarrow> bool promise \<times> object_store" where
  "EventCache_patchTab env_get between env_put now_patch now_put eventKey tabName tabData st =
     (case EventCache_get env_get eventKey st of
        Rejected e \<Rightarrow> (Resolved False, st)
      | Resolved None \<Rightarrow> (Resolved False, st)
      | Resolved (Some existing0) \<Rightarrow>
          (let existing = existing0\<lparr>data := assign_property tabName tabData (data existing0),
                                    saved_at := now_patch\<rparr>
           in case EventCache_put env_put now_put eventKey (data existing) (between st) of
                (Rejected e, st') \<Rightarrow> (Resolved False, st')
              | (Resolved b, st') \<Rightarrow> (Resolved b, st')))"

definition EventCache_remove ::
    "idb_outcome \<Rightarrow> string \<Rightarrow> object_store \<Rightarrow> bool promise \<times> object_store" where
  "EventCache_remove env eventKey st =
     (case idb_open env of
        Rejected e \<Rightarrow> (Resolved False, st)
      | Resolved db \<Rightarrow> (request_promise env True, commit env (store_delete eventKey st) st))"

text \<open>An item of \<open>list()\<close>; \<open>r.data?.info?.name || r.event_key\<close> and its like.\<close>

record list_item =
  item_event_key :: string
  item_saved_at :: int
  item_name :: jsval
  item_status :: jsval
  item_year :: jsval

definition list_item_of :: "entry \<Rightarrow> list_item" where
  "list_item_of r =
     (let info = opt_prop (JObj (data r)) ''info'' in
      \<lparr>item_event_key = event_key r,
       item_saved_at = saved_at r,
       item_name = js_or (opt_prop info ''name'') (JStr (event_key r)),
       item_status = js_or (opt_prop info ''status'') (JStr []),
       item_year = js_or (opt_prop info ''year'') (JStr [])\<rparr>)"

definition EventCache_list :: "idb_outcome \<Rightarrow> object_store \<Rightarrow> list_item list promise" where
  "EventCache_list env st =
     (case idb_open env of
        Rejected e \<Rightarrow> Resolved []
      | Resolved db \<Rightarrow> request_promise env (map list_item_of (store_getAll st)))"

definition EventCache_clear :: "idb_outcome \<Rightarrow> object_store \<Rightarrow> bool promise \<times> object_store" where
  "EventCache_clear env st =
     (case idb_open env of
        Rejected e \<Rightarrow> (Resolved False, st)
      | Resolved db \<Rightarrow> (request_promise env True, commit env (store_clear st) st))"


section \<open>api.js: the fetch wrapper\<close>

datatype http_method = GET | POST | DELETE

text \<open>
  The arguments of one \<open>fetch\<close> call. \<open>req_body\<close> is the value whose
  \<open>JSON.stringify\<close> text is sent, \<open>None\<close> when no body is sent.
\<close>

record request =
  req_method :: http_method
  req_url :: string
  req_headers :: "(string \<times> string) list"
  req_body :: "jsval option"

text \<open>
  The response as the module reads it: \<open>resp.ok\<close>, \<open>resp.status\<close> (an unsigned
  16-bit integer) and \<open>resp.json()\<close>, which yields the parsed body or rejects with a
  \<open>SyntaxError\<close> when the body is not JSON (\<open>json_body = None\<close>).
\<close>

record response =
  ok :: bool
  status :: "16 word"
  json_body :: "jsval option"

definition resp_json :: "response \<Rightarrow> jsval promise" where
  "resp_json resp = (case json_body resp of None \<Rightarrow> Rejected SyntaxError | Some v \<Rightarrow> Resolved v)"

text \<open>\<open>v.name\<close>: reading a property of \<open>null\<close> or \<open>undefined\<close> throws a \<open>TypeError\<close>.\<close>

fun get_prop :: "jsval \<Rightarrow> string \<Rightarrow> js_error + jsval" where
  "get_prop JUndefined name = Inl TypeError"
| "get_prop JNull name = Inl TypeError"
| "get_prop v name = Inr (opt_prop v name)"

text \<open>
  The code after the \<open>fetch\<close>, which \<open>get\<close>, \<open>post\<close> and \<open>del\<close> repeat
  word for word: if \<open>resp.ok\<close> is false, \<open>body\<close> is \<open>resp.json()\<close> or, when
  that rejects, the empty object, and an \<open>Error\<close> is thrown whose message is
  \<open>body.detail || `HTTP ${resp.status}`\<close>; otherwise \<open>resp.json()\<close> is returned.
  \<open>new Error(v)\<close> converts \<open>v\<close> to a string, and throws what that conversion
  throws.
\<close>

definition throw_unless_ok :: "response \<Rightarrow> jsval promise" where
  "throw_unless_ok resp =
     (if \<not> ok resp then
        (let body = (case resp_json resp of Rejected e \<Rightarrow> JObj [] | Resolved v \<Rightarrow> v)
         in case get_prop body ''detail'' of
              Inl e \<Rightarrow> Rejected e
            | Inr detail \<Rightarrow>
                (let message = js_or detail (JStr (''HTTP '' @ num_to_string (uint (status resp))))
                 in if to_string_throws message then Rejected TypeError
                    else Rejected (Error (ToString message))))
      else resp_json resp)"

text \<open>
  Each of the three primitives makes one \<open>fetch\<close> call. Its model returns the request
  it issues and the promise it settles to; \<open>fetched\<close> is what the \<open>fetch\<close> call
  settles to (a response, or a rejection when the network fails).
\<close>

definition API_get :: "response promise \<Rightarrow> string \<Rightarrow> request \<times> jsval promise" where
  "API_get fetched path =
     (\<lparr>req_method = GET, req_url = ''/api'' @ path, req_headers = [], req_body = None\<rparr>,
      case fetched of Rejected e \<Rightarrow> Rejected e | Resolved resp \<Rightarrow> throw_unless_ok resp)"

definition API_post :: "response promise \<Rightarrow> string \<Rightarrow> jsval \<Rightarrow> request \<times> jsval promise" where
  "API_post fetched path body =
     (\<lparr>req_method = POST, req_url = ''/api'' @ path,
       req_headers = (if truthy body then [(''Content-Type'', ''application/json'')] else []),
       req_body = (if truthy body then Some body else None)\<rparr>,
      case fetched of Rejected e \<Rightarrow> Rejected e | Resolved resp \<Rightarrow> throw_unless_ok resp)"

definition API_del :: "response promise \<Rightarrow> string \<Rightarrow> request \<times> jsval promise" where
  "API_del fetched path =
     (\<lparr>req_method = DELETE, req_url = ''/api'' @ path, req_headers = [], req_body = None\<rparr>,
      case fetched of Rejected e \<Rightarrow> Rejected e | Resolved resp \<Rightarrow> throw_unless_ok resp)"

text \<open>\<open>encodeURIComponent\<close> on a string held as its UTF-8 bytes.\<close>

definition uri_unreserved :: "char \<Rightarrow> bool" where
  "uri_unreserved c \<longleftrightarrow>
     c \<in> set ''ABCDEFGHIJKLMNOPQRSTUVWXYZabcdefghijklmnopqrstuvwxyz0123456789-_.!~*()''
     \<or> c = CHR 0x27"

definition encodeURIComponent :: "string \<Rightarrow> string" where
  "encodeURIComponent s =
     concat (map (\<lambda>c. if uri_unreserved c then [c]
                       else [CHR ''%'', ''0123456789ABCDEF'' ! (of_char c div 16),
                             ''0123456789ABCDEF'' ! (of_char c mod 16)]) s)"

text \<open>
  The operations of the module (frontend/js/api.js). Array arguments are lists. The
  arguments are the event keys, team numbers, years and flags the application passes,
  which convert to strings without throwing.
\<close>

definition seasonEvents :: "response promise \<Rightarrow> jsval \<Rightarrow> request \<times> jsval promise" where
  "seasonEvents f yr = API_get f (''/events/season/'' @ ToString yr)"

definition eventInfo :: "response promise \<Rightarrow> jsval \<Rightarrow> request \<times> jsval promise" where
  "eventInfo f ek = API_get f (''/events/'' @ ToString ek @ ''/info'')"

definition eventTeams :: "response promise \<Rightarrow> jsval \<Rightarrow> request \<times> jsval promise" where
  "eventTeams f ek = API_get f (''/events/'' @ ToString ek @ ''/teams'')"

definition eventSummary :: "response promise \<Rightarrow> jsval \<Rightarrow> request \<times> jsval promise" where
  "eventSummary f ek = API_get f (''/events/'' @ ToString ek @ ''/summary'')"

definition eventSummaryRefresh :: "response promise \<Rightarrow> jsval \<Rightarrow> request \<times> jsval promise" where
  "eventSummaryRefresh f ek = API_get f (''/events/'' @ ToString ek @ ''/summary/refresh-stats'')"

definition eventConnections :: "response promise \<Rightarrow> jsval \<Rightarrow> jsval \<Rightarrow> request \<times> jsval promise" where
  "eventConnections f ek allTime =
     API_get f (''/events/'' @ ToString ek @ ''/summary/connections?all_time=''
                @ (if truthy allTime then ''true'' else ''false''))"

definition clearCache :: "response promise \<Rightarrow> jsval \<Rightarrow> request \<times> jsval promise" where
  "clearCache f ek = API_get f (''/events/'' @ ToString ek @ ''/clear-cache'')"

definition refreshRankings :: "response promise \<Rightarrow> jsval \<Rightarrow> request \<times> jsval promise" where
  "refreshRankings f ek = API_get f (''/events/'' @ ToString ek @ ''/refresh-rankings'')"

definition playoffMatches :: "response promise \<Rightarrow> jsval \<Rightarrow> request \<times> jsval promise" where
  "playoffMatches f ek = API_get f (''/matches/'' @ ToString ek @ ''/playoffs'')"

definition allMatches :: "response promise \<Rightarrow> jsval \<Rightarrow> request \<times> jsval promise" where
  "allMatches f ek = API_get f (''/matches/'' @ ToString ek @ ''/all'')"

definition matchBreakdown :: "response promise \<Rightarrow> jsval \<Rightarrow> request \<times> jsval promise" where
  "matchBreakdown f mk = API_get f (''/matches/match/'' @ ToString mk @ ''/breakdown'')"

definition teamPerf :: "response promise \<Rightarrow> jsval \<Rightarrow> jsval \<Rightarrow> request \<times> jsval promise" where
  "teamPerf f ek num = API_get f (''/matches/team-perf/'' @ ToString ek @ ''/'' @ ToString num)"

definition alliances :: "response promise \<Rightarrow> jsval \<Rightarrow> request \<times> jsval promise" where
  "alliances f ek = API_get f (''/alliances/'' @ ToString ek)"

definition teamStats :: "response promise \<Rightarrow> jsval \<Rightarrow> jsval \<Rightarrow> request \<times> jsval promise" where
  "teamStats f num year =
     API_get f (''/teams/'' @ ToString num @ ''/stats''
                @ (if truthy year then ''?year='' @ ToString year else []))"

definition headToHead ::
    "response promise \<Rightarrow> jsval \<Rightarrow> jsval \<Rightarrow> jsval \<Rightarrow> jsval \<Rightarrow> request \<times> jsval promise" where
  "headToHead f a b year allTime =
     API_get f (''/teams/head-to-head/'' @ ToString a @ ''/'' @ ToString b
                @ (if truthy year then ''?year='' @ ToString year @ ''&'' else ''?'')
                @ ''all_time='' @ (if truthy allTime then ''true'' else ''false''))"

definition compareTeams :: "response promise \<Rightarrow> jsval \<Rightarrow> jsval list \<Rightarrow> request \<times> jsval promise" where
  "compareTeams f ek teamKeys =
     API_get f (''/events/'' @ ToString ek @ ''/compare?teams='' @ ToString (JArr teamKeys))"

definition regionFacts :: "response promise \<Rightarrow> jsval \<Rightarrow> request \<times> jsval promise" where
  "regionFacts f name =
     API_get f (''/events/region/'' @ encodeURIComponent (ToString name) @ ''/facts'')"

definition regionsList :: "response promise \<Rightarrow> request \<times> jsval promise" where
  "regionsList f = API_get f ''/events/regions/list''"

definition eventHistory :: "response promise \<Rightarrow> jsval \<Rightarrow> request \<times> jsval promise" where
  "eventHistory f ek = API_get f (''/events/'' @ ToString ek @ ''/history'')"

definition savedList :: "response promise \<Rightarrow> request \<times> jsval promise" where
  "savedList f = API_get f ''/events/saved/list''"

definition saveEvent :: "response promise \<Rightarrow> jsval \<Rightarrow> jsval \<Rightarrow> request \<times> jsval promise" where
  "saveEvent f ek d = API_post f (''/events/'' @ ToString ek @ ''/save'') d"

definition loadSaved :: "response promise \<Rightarrow> jsval \<Rightarrow> request \<times> jsval promise" where
  "loadSaved f ek = API_get f (''/events/'' @ ToString ek @ ''/saved'')"

definition deleteSaved :: "response promise \<Rightarrow> jsval \<Rightarrow> request \<times> jsval promise" where
  "deleteSaved f ek = API_del f (''/events/'' @ ToString ek @ ''/saved'')"


section \<open>app.js: the rankings table\<close>

text \<open>
  A row of the rankings table. \<open>rank\<close> is a number for a ranked team and another value
  (the backend sends \<open>'-'\<close>) otherwise. The text fields hold \<open>''\<close> where the data has
  no value; the power ratings are held as integers.
\<close>

record team =
  rank :: jsval
  team_number :: int
  nickname :: string
  city :: string
  state_prov :: string
  country :: string
  wins :: int
  losses :: int
  opr :: int
  dpr :: int
  ccwm :: int

text \<open>\<open>[a.city, a.state_prov, a.country].filter(Boolean).join(', ')\<close>\<close>

definition location :: "team \<Rightarrow> string" where
  "location a = join '', '' (filter (\<lambda>s. s \<noteq> []) [city a, state_prov a, country a])"

text \<open>
  The comparator that \<open>sortTeamsData\<close> (docs/js/app.js) passes to \<open>sort\<close>.
  \<open>toLowerCase\<close> and \<open>localeCompare\<close> are the platform's, taken as parameters.
\<close>

definition sort_compare ::
    "(string \<Rightarrow> string) \<Rightarrow> (string \<Rightarrow> string \<Rightarrow> int) \<Rightarrow> string \<Rightarrow> bool \<Rightarrow> team \<Rightarrow> team \<Rightarrow> int" where
  "sort_compare toLowerCase localeCompare col asc a b =
     (if col = ''rank'' then
        (let va = (case rank a of JNum n \<Rightarrow> n | _ \<Rightarrow> 999);
             vb = (case rank b of JNum n \<Rightarrow> n | _ \<Rightarrow> 999)
         in if va \<noteq> vb then (if asc then va - vb else vb - va)
            else team_number a - team_number b)
      else if col = ''team_number'' then
        (if asc then team_number a - team_number b else team_number b - team_number a)
      else if col = ''nickname'' then
        (let va = toLowerCase (nickname a); vb = toLowerCase (nickname b)
         in if asc then localeCompare va vb else localeCompare vb va)
      else if col = ''location'' then
        (let va = toLowerCase (location a); vb = toLowerCase (location b)
         in if asc then localeCompare va vb else localeCompare vb va)
      else if col = ''record'' then
        (let va = wins a - losses a; vb = wins b - losses b
         in if va \<noteq> vb then (if asc then vb - va else va - vb)
            else (if asc then wins b - wins a else wins a - wins b))
      else if col = ''opr'' then (if asc then opr b - opr a else opr a - opr b)
      else if col = ''dpr'' then (if asc then dpr a - dpr b else dpr b - dpr a)
      else if col = ''ccwm'' then (if asc then ccwm b - ccwm a else ccwm a - ccwm b)
      else 0)"

text \<open>
  \<open>Array.prototype.sort(compare)\<close>: a stable sort by the comparator, here by
  insertion. An element goes in front of the first element it does not compare
  greater than, so elements that compare equal keep their order.
\<close>

fun insert_by :: "('a \<Rightarrow> 'a \<Rightarrow> int) \<Rightarrow> 'a \<Rightarrow> 'a list \<Rightarrow> 'a list" where
  "insert_by cmp x [] = [x]"
| "insert_by cmp x (y # ys) = (if cmp x y \<le> 0 then x # y # ys else y # insert_by cmp x ys)"

definition array_sort :: "('a \<Rightarrow> 'a \<Rightarrow> int) \<Rightarrow> 'a list \<Rightarrow> 'a list" where
  "array_sort cmp xs = foldr (insert_by cmp) xs []"

record teams_state =
  teamsData :: "team list option"
  teamsSortCol :: string
  teamsSortAsc :: bool

definition sortTeamsData ::
    "(string \<Rightarrow> string) \<Rightarrow> (string \<Rightarrow> string \<Rightarrow> int) \<Rightarrow> teams_state \<Rightarrow> teams_state" where
  "sortTeamsData toLowerCase localeCompare st =
     (case teamsData st of
        None \<Rightarrow> st
      | Some ts \<Rightarrow>
          st\<lparr>teamsData :=
               Some (array_sort
                 (sort_compare toLowerCase localeCompare (teamsSortCol st) (teamsSortAsc st)) ts)\<rparr>)"

text \<open>The rank a team is sorted by, and whether it has a numeric rank.\<close>

definition effective_rank :: "team \<Rightarrow> int" where
  "effective_rank t = (case rank t of JNum n \<Rightarrow> n | _ \<Rightarrow> 999)"

definition ranked :: "team \<Rightarrow> bool" where
  "ranked t = (case rank t of JNum n \<Rightarrow> True | _ \<Rightarrow> False)"


section \<open>app.js: the playoff renderers\<close>

record alliance =
  score :: int
  alliance_number :: jsval
  team_numbers :: "int list"
  team_names :: "string list"
  team_countries :: "string list"
  total_opr :: int

record match =
  bracket :: string
  set_number :: int
  match_number :: int
  winning_alliance :: string
  red :: alliance
  blue :: alliance

text \<open>
  Markup is modelled by its structure: a \<open>class\<close> attribute is the list of its class
  names, a tooltip is the text it holds (\<open>None\<close> where the markup has none), a score
  cell is the number shown or \<open>None\<close> for the dash.
\<close>

record bkt_row =
  row_classes :: "string list"
  row_seed :: string
  row_teams :: "(int \<times> string option) list"
  row_score :: "int option"

record bkt_slot =
  slot_classes :: "string list"
  slot_header :: string
  red_row :: bkt_row
  blue_row :: bkt_row
  slot_desc :: string

datatype slot_html = TBD string string | Played bkt_slot

text \<open>The argument \<open>setNum\<close> of \<open>slot\<close>: a set number, or \<open>'f'\<close> for the final.\<close>

datatype set_key = SetNum int | SetF

text \<open>\<open>SET_DESCRIPTIONS[setNum] || ''\<close>\<close>

fun SET_DESCRIPTIONS :: "set_key \<Rightarrow> string" where
  "SET_DESCRIPTIONS SetF = ''W11 vs W13''"
| "SET_DESCRIPTIONS (SetNum n) =
     (if n = 1 then ''#1 vs #8'' else if n = 2 then ''#4 vs #5''
      else if n = 3 then ''#2 vs #7'' else if n = 4 then ''#3 vs #6''
      else if n = 5 then ''L1 vs L2'' else if n = 6 then ''L3 vs L4''
      else if n = 7 then ''W1 vs W2'' else if n = 8 then ''W3 vs W4''
      else if n = 9 then ''W5 vs L8'' else if n = 10 then ''W6 vs L7''
      else if n = 11 then ''W7 vs W8'' else if n = 12 then ''W9 vs W10''
      else if n = 13 then ''W12 vs L11'' else [])"

text \<open>
  The body of \<open>playoffData.forEach\<close>: a match of the final bracket is pushed onto
  \<open>finals\<close>, any other match replaces the one indexed under its \<open>set_number\<close> when
  none is indexed yet or its \<open>match_number\<close> is greater.
\<close>

definition index_match ::
    "(int \<rightharpoonup> match) \<times> match list \<Rightarrow> match \<Rightarrow> (int \<rightharpoonup> match) \<times> match list" where
  "index_match acc m =
     (let bySet = fst acc; finals = snd acc in
      if bracket m = ''final'' then (bySet, finals @ [m])
      else (let s = set_number m in
            case bySet s of
              None \<Rightarrow> (bySet(s \<mapsto> m), finals)
            | Some old \<Rightarrow>
                if match_number m > match_number old then (bySet(s \<mapsto> m), finals)
                else (bySet, finals)))"

definition index_matches :: "match list \<Rightarrow> (int \<rightharpoonup> match) \<times> match list" where
  "index_matches playoffData = foldl index_match (Map.empty, []) playoffData"

text \<open>\<open>finals.length ? finals.reduce((a, b) => b.match_number > a.match_number ? b : a) : null\<close>\<close>

definition grand_final :: "match list \<Rightarrow> match option" where
  "grand_final finals =
     (case finals of
        [] \<Rightarrow> None
      | f # fs \<Rightarrow> Some (foldl (\<lambda>a b. if match_number b > match_number a then b else a) f fs))"

text \<open>
  \<open>_nickMap\<close>: the nickname of each team of \<open>teamsData\<close> that has one, a later row
  overwriting an earlier one; \<open>_teamsHtml\<close> pairs each number with its nickname.
\<close>

definition nickMap :: "team list option \<Rightarrow> (int \<rightharpoonup> string)" where
  "nickMap td =
     (case td of
        None \<Rightarrow> Map.empty
      | Some ts \<Rightarrow>
          map_of (rev (map (\<lambda>t. (team_number t, nickname t)) (filter (\<lambda>t. nickname t \<noteq> []) ts))))"

definition teamsHtml :: "(int \<rightharpoonup> string) \<Rightarrow> int list \<Rightarrow> (int \<times> string option) list" where
  "teamsHtml nicks nums = map (\<lambda>num. (num, nicks num)) nums"

text \<open>\<open>const m = setNum === 'f' ? gf : bySet[setNum]\<close>\<close>

definition slot_match :: "(int \<rightharpoonup> match) \<Rightarrow> match option \<Rightarrow> set_key \<Rightarrow> match option" where
  "slot_match bySet gf setNum = (case setNum of SetF \<Rightarrow> gf | SetNum n \<Rightarrow> bySet n)"

definition slot ::
    "(int \<rightharpoonup> string) \<Rightarrow> (int \<rightharpoonup> match) \<Rightarrow> match option \<Rightarrow> set_key \<Rightarrow> string \<Rightarrow> slot_html" where
  "slot nicks bySet gf setNum label =
     (let desc = SET_DESCRIPTIONS setNum in
      case slot_match bySet gf setNum of
        None \<Rightarrow> TBD label desc
      | Some m \<Rightarrow>
          (let redWon = (winning_alliance m = ''red'');
               blueWon = (winning_alliance m = ''blue'');
               upcoming = (score (red m) < 0 \<and> score (blue m) < 0);
               replay = (if match_number m > 1 then '' R'' @ num_to_string (match_number m) else []);
               redSeed = (if truthy (alliance_number (red m))
                          then ''#'' @ ToString (alliance_number (red m)) else []);
               blueSeed = (if truthy (alliance_number (blue m))
                           then ''#'' @ ToString (alliance_number (blue m)) else [])
           in Played
             \<lparr>slot_classes = [''bkt-slot''] @ (if upcoming then [''bkt-upcoming''] else [])
                               @ (if redWon \<or> blueWon then [''bkt-decided''] else []),
              slot_header = label @ replay,
              red_row = \<lparr>row_classes = [''bkt-row'', ''bkt-red'']
                                         @ (if redWon then [''bkt-won''] else []),
                         row_seed = redSeed,
                         row_teams = teamsHtml nicks (team_numbers (red m)),
                         row_score = (if upcoming then None else Some (score (red m)))\<rparr>,
              blue_row = \<lparr>row_classes = [''bkt-row'', ''bkt-blue'']
                                          @ (if blueWon then [''bkt-won''] else []),
                          row_seed = blueSeed,
                          row_teams = teamsHtml nicks (team_numbers (blue m)),
                          row_score = (if upcoming then None else Some (score (blue m)))\<rparr>,
              slot_desc = desc\<rparr>))"

text \<open>
  What \<open>renderBracketTree\<close> writes into \<open>playoff-bracket\<close>: the message for no
  matches, or the upper bracket, the grand final and the lower bracket with their slots
  in the template's order.
\<close>

datatype bracket_html =
    NoPlayoffMatches
  | BracketTree "slot_html list" slot_html "slot_html list"

definition renderBracketTree :: "team list option \<Rightarrow> match list option \<Rightarrow> bracket_html" where
  "renderBracketTree td playoffData =
     (case playoffData of
        None \<Rightarrow> NoPlayoffMatches
      | Some [] \<Rightarrow> NoPlayoffMatches
      | Some pd \<Rightarrow>
          (let bySet = fst (index_matches pd);
               gf = grand_final (snd (index_matches pd));
               nicks = nickMap td
           in BracketTree
                [slot nicks bySet gf (SetNum 1) ''M1'', slot nicks bySet gf (SetNum 2) ''M2'',
                 slot nicks bySet gf (SetNum 3) ''M3'', slot nicks bySet gf (SetNum 4) ''M4'',
                 slot nicks bySet gf (SetNum 7) ''M7'', slot nicks bySet gf (SetNum 8) ''M8'',
                 slot nicks bySet gf (SetNum 11) ''M11'']
                (slot nicks bySet gf SetF ''Final'')
                [slot nicks bySet gf (SetNum 5) ''M5'', slot nicks bySet gf (SetNum 6) ''M6'',
                 slot nicks bySet gf (SetNum 9) ''M9'', slot nicks bySet gf (SetNum 10) ''M10'',
                 slot nicks bySet gf (SetNum 12) ''M12'', slot nicks bySet gf (SetNum 13) ''M13'']))"

text \<open>
  \<open>renderAlliance(color, m)\<close> of the match cards. \<open>m[color]\<close> is an alliance for
  \<open>'red'\<close> and \<open>'blue'\<close>; for any other name \<open>a.team_numbers.map\<close> throws.
  \<open>highlightForeign\<close> is the global of that name. The three spellings of the home
  country are compared as UTF-8 bytes.
\<close>

record team_badge =
  badge_classes :: "string list"
  badge_country :: string
  badge_team :: int
  badge_tooltip :: "string option"

record alliance_html =
  div_classes :: "string list"
  badges :: "team_badge list"
  opr_text :: string
  score_classes :: "string list"
  score_text :: "int option"

definition badge :: "bool \<Rightarrow> string \<Rightarrow> alliance \<Rightarrow> nat \<Rightarrow> int \<Rightarrow> team_badge" where
  "badge highlightForeign badgeCls a i tn =
     (let name = (if i < length (team_names a) then team_names a ! i else []);
          country = (if i < length (team_countries a) then team_countries a ! i else []);
          foreignCls = (highlightForeign \<and> country \<noteq> [] \<and> country \<noteq> ''Turkey''
                        \<and> country \<noteq> CHR ''T'' # CHR 0xC3 # CHR 0xBC # ''rkiye''
                        \<and> country \<noteq> ''Turkiye'')
      in \<lparr>badge_classes = [''team-badge'', badgeCls]
                            @ (if foreignCls then [''foreign-team''] else [])
                            @ (if name \<noteq> [] then [''has-tooltip''] else []),
          badge_country = country,
          badge_team = tn,
          badge_tooltip = (if name \<noteq> [] then Some name else None)\<rparr>)"

definition renderAlliance :: "bool \<Rightarrow> string \<Rightarrow> match \<Rightarrow> js_error + alliance_html" where
  "renderAlliance highlightForeign color m =
     (case (if color = ''red'' then Some (red m)
            else if color = ''blue'' then Some (blue m) else None) of
        None \<Rightarrow> Inl TypeError
      | Some a \<Rightarrow>
          (let won = (winning_alliance m = color);
               badgeCls = (if color = ''red'' then ''red-badge'' else ''blue-badge'')
           in Inr \<lparr>div_classes = [''alliance'', color] @ (if won then [''winner''] else []),
                   badges = map (\<lambda>(i, tn). badge highlightForeign badgeCls a i tn)
                              (zip [0 ..< length (team_numbers a)] (team_numbers a)),
                   opr_text = CHR 0xCE # CHR 0xA3 # '' OPR: '' @ num_to_string (total_opr a),
                   score_classes = [''alliance-score''] @ (if won then [''winner-text''] else []),
                   score_text = (if score a \<ge> 0 then Some (score a) else None)\<rparr>))"


section \<open>app.js: match navigation\<close>

text \<open>
  The play-by-play and breakdown cursors. \<open>pbpData\<close> and \<open>bdData\<close> are \<open>null\<close>
  (\<open>None\<close>) or hold the list \<open>matches\<close>; the two select boxes hold the value last
  written to them. Rendering the chosen match does not change this state.
\<close>

record 'm nav_state =
  pbpData :: "'m list option"
  pbpIndex :: int
  pbp_match_select :: int
  bdData :: "'m list option"
  bdIndex :: int
  bd_match_select :: int

definition pbpPrev :: "'m nav_state \<Rightarrow> 'm nav_state" where
  "pbpPrev st =
     (if pbpIndex st > 0
      then st\<lparr>pbpIndex := pbpIndex st - 1, pbp_match_select := pbpIndex st - 1\<rparr>
      else st)"

definition pbpNext :: "'m nav_state \<Rightarrow> 'm nav_state" where
  "pbpNext st =
     (case pbpData st of
        None \<Rightarrow> st
      | Some matches \<Rightarrow>
          if pbpIndex st < int (length matches) - 1
          then st\<lparr>pbpIndex := pbpIndex st + 1, pbp_match_select := pbpIndex st + 1\<rparr>
          else st)"

definition bdPrev :: "'m nav_state \<Rightarrow> 'm nav_state" where
  "bdPrev st =
     (if bdIndex st > 0
      then st\<lparr>bdIndex := bdIndex st - 1, bd_match_select := bdIndex st - 1\<rparr>
      else st)"

definition bdNext :: "'m nav_state \<Rightarrow> 'm nav_state" where
  "bdNext st =
     (case bdData st of
        None \<Rightarrow> st
      | Some matches \<Rightarrow>
          if bdIndex st < int (length matches) - 1
          then st\<lparr>bdIndex := bdIndex st + 1, bd_match_select := bdIndex st + 1\<rparr>
          else st)"

text \<open>
  The bounds a cursor is to stay in: a list is loaded, and the index is one of its
  positions (so the list is not empty).
\<close>

definition index_in_bounds :: "'m list option \<Rightarrow> int \<Rightarrow> bool" where
  "index_in_bounds d i =
     (case d of None \<Rightarrow> False | Some matches \<Rightarrow> 0 \<le> i \<and> i \<le> int (length matches) - 1)"


section \<open>Notions the properties are stated with\<close>

text \<open>The order the rankings table is to be in when sorted by rank, ascending.\<close>

definition rank_order :: "team \<Rightarrow> team \<Rightarrow> bool" where
  "rank_order a b \<longleftrightarrow>
     effective_rank a < effective_rank b
     \<or> (effective_rank a = effective_rank b \<and> team_number a \<le> team_number b)"

text \<open>
  The matches that compete for the slot of set \<open>s\<close>, those that compete for the
  grand final, and what it is for a slot's choice to be the latest replay among them.
\<close>

definition set_candidates :: "int \<Rightarrow> match list \<Rightarrow> match list" where
  "set_candidates s pd = filter (\<lambda>m. bracket m \<noteq> ''final'' \<and> set_number m = s) pd"

definition final_candidates :: "match list \<Rightarrow> match list" where
  "final_candidates pd = filter (\<lambda>m. bracket m = ''final'') pd"

definition latest_replay :: "match option \<Rightarrow> match list \<Rightarrow> bool" where
  "latest_replay shown cands =
     (case shown of
        None \<Rightarrow> cands = []
      | Some m \<Rightarrow> m \<in> set cands \<and> (\<forall>m' \<in> set cands. match_number m' \<le> match_number m))"

text \<open>
  The slots of the tree in the template's order (upper bracket, grand final, lower
  bracket), each with its label, and the slots a rendered tree holds in that order.
\<close>

definition slot_keys :: "(set_key \<times> string) list" where
  "slot_keys =
     [(SetNum 1, ''M1''), (SetNum 2, ''M2''), (SetNum 3, ''M3''), (SetNum 4, ''M4''),
      (SetNum 7, ''M7''), (SetNum 8, ''M8''), (SetNum 11, ''M11''),
      (SetF, ''Final''),
      (SetNum 5, ''M5''), (SetNum 6, ''M6''), (SetNum 9, ''M9''), (SetNum 10, ''M10''),
      (SetNum 12, ''M12''), (SetNum 13, ''M13'')]"

fun tree_slots :: "bracket_html \<Rightarrow> slot_html list" where
  "tree_slots NoPlayoffMatches = []"
| "tree_slots (BracketTree upper final lower) = upper @ [final] @ lower"

text \<open>The running choice of the indexing loop, seen for one set at a time.\<close>

fun keep_latest :: "match option \<Rightarrow> match list \<Rightarrow> match option" where
  "keep_latest acc [] = acc"
| "keep_latest None (m # ms) = keep_latest (Some m) ms"
| "keep_latest (Some a) (m # ms) =
     keep_latest (if match_number m > match_number a then Some m else Some a) ms"


section \<open>Sample data\<close>

definition sample_alliance :: "int \<Rightarrow> int \<Rightarrow> int list \<Rightarrow> alliance" where
  "sample_alliance seed sc nums =
     \<lparr>score = sc, alliance_number = JNum seed, team_numbers = nums, team_names = [],
      team_countries = [], total_opr = 0\<rparr>"

definition sample_match :: "string \<Rightarrow> int \<Rightarrow> int \<Rightarrow> string \<Rightarrow> int \<Rightarrow> int \<Rightarrow> match" where
  "sample_match br s n w rs bs =
     \<lparr>bracket = br, set_number = s, match_number = n, winning_alliance = w,
      red = sample_alliance 1 rs [254, 1678, 118], blue = sample_alliance 8 bs [330, 973, 1323]\<rparr>"

definition sample_team :: "jsval \<Rightarrow> int \<Rightarrow> team" where
  "sample_team r n =
     \<lparr>rank = r, team_number = n, nickname = [], city = [], state_prov = [], country = [],
      wins = 0, losses = 0, opr = 0, dpr = 0, ccwm = 0\<rparr>"

text \<open>A \<open>localeCompare\<close> that orders strings by their bytes.\<close>

definition byte_compare :: "string \<Rightarrow> string \<Rightarrow> int" where
  "byte_compare a b = (if a < b then - 1 else if a = b then 0 else 1)"


section \<open>Properties of the event cache\<close>

lemmas idb_defs = idb_open_def request_promise_def commit_def

lemma store_get_put_same: "store_get (event_key r) (store_put r st) = Some r"
  by (simp add: store_get_def store_put_def)

lemma find_filter_other:
  "k' \<noteq> k \<Longrightarrow>
   find (\<lambda>r. event_key r = k') (filter (\<lambda>x. event_key x \<noteq> k) st) =
   find (\<lambda>r. event_key r = k') st"
  by (induction st) auto

lemma store_get_put_other:
  "k' \<noteq> event_key r \<Longrightarrow> store_get k' (store_put r st) = store_get k' st"
  by (simp add: store_get_def store_put_def find_filter_other)

lemma store_get_delete_same: "store_get k (store_delete k st) = None"
  by (simp add: store_get_def store_delete_def find_None_iff)

lemma store_get_delete_other:
  "k' \<noteq> k \<Longrightarrow> store_get k' (store_delete k st) = store_get k' st"
  by (simp add: store_get_def store_delete_def find_filter_other)

lemma store_delete_absent: "store_get k st = None \<Longrightarrow> store_delete k st = st"
  by (simp add: store_get_def store_delete_def find_None_iff filter_id_conv)

lemma put_succeeds_iff:
  "EventCache_put env now k d st = (Resolved True, st') \<longleftrightarrow>
   env = Completes \<and> st' = store_put \<lparr>event_key = k, saved_at = now, data = d\<rparr> st"
  by (cases env) (auto simp: idb_defs EventCache_put_def)

lemma remove_succeeds_iff:
  "EventCache_remove env k st = (Resolved True, st') \<longleftrightarrow>
   env = Completes \<and> st' = store_delete k st"
  by (cases env) (auto simp: idb_defs EventCache_remove_def)

text \<open>
  C2. The cache is a key-value store keyed by event identifier: when
  \<open>EventCache.put(k, d)\<close> has succeeded (resolved \<open>true\<close>), a following
  \<open>EventCache.get(k)\<close> that the storage serves returns a record whose
  \<open>event_key\<close> is \<open>k\<close> and whose \<open>data\<close> is \<open>d\<close> (and whose \<open>saved_at\<close>
  is the time of the put).
\<close>

theorem put_then_get:
  assumes "EventCache_put env now k d st = (Resolved True, st')"
  shows "\<exists>r. EventCache_get Completes k st' = Resolved (Some r)
             \<and> event_key r = k \<and> data r = d \<and> saved_at r = now"
proof -
  let ?r = "\<lparr>event_key = k, saved_at = now, data = d\<rparr>"
  from assms have st': "st' = store_put ?r st"
    by (simp add: put_succeeds_iff)
  have "store_get (event_key ?r) (store_put ?r st) = Some ?r"
    by (rule store_get_put_same)
  then have "EventCache_get Completes k st' = Resolved (Some ?r)"
    by (simp add: idb_defs EventCache_get_def st')
  then show ?thesis by simp
qed

theorem put_then_get_witness:
  "EventCache_put Completes 1700000000000 ''2024casj'' [(''info'', JNull)]
      [\<lparr>event_key = ''2024casj'', saved_at = 5, data = []\<rparr>]
     = (Resolved True,
        [\<lparr>event_key = ''2024casj'', saved_at = 1700000000000, data = [(''info'', JNull)]\<rparr>])
   \<and> EventCache_get Completes ''2024casj''
        [\<lparr>event_key = ''2024casj'', saved_at = 1700000000000, data = [(''info'', JNull)]\<rparr>]
     = Resolved (Some \<lparr>event_key = ''2024casj'', saved_at = 1700000000000,
                        data = [(''info'', JNull)]\<rparr>)"
proof -
  let ?e' = "\<lparr>event_key = ''2024casj'', saved_at = 1700000000000, data = [(''info'', JNull)]\<rparr>"
  have h: "EventCache_put Completes 1700000000000 ''2024casj'' [(''info'', JNull)]
      [\<lparr>event_key = ''2024casj'', saved_at = 5, data = []\<rparr>] = (Resolved True, [?e'])"
    by (simp add: idb_defs EventCache_put_def store_put_def)
  from put_then_get [OF h]
  obtain r where "EventCache_get Completes ''2024casj'' [?e'] = Resolved (Some r)"
    by blast
  moreover have "EventCache_get Completes ''2024casj'' [?e'] = Resolved (Some ?e')"
    by (simp add: idb_defs EventCache_get_def store_get_def)
  ultimately show ?thesis using h by simp
qed

lemma patchTab_missing:
  "store_get k st = None \<Longrightarrow>
   EventCache_patchTab env_get between env_put t1 t2 k tab v st = (Resolved False, st)"
  by (cases env_get) (simp_all add: idb_defs EventCache_patchTab_def EventCache_get_def)

lemma patchTab_completes:
  assumes "store_get k st = Some e"
  shows "EventCache_patchTab Completes between Completes t1 t2 k tab v st =
         (Resolved True,
          store_put \<lparr>event_key = k, saved_at = t2, data = assign_property tab v (data e)\<rparr>
            (between st))"
  using assms
  by (simp add: idb_defs EventCache_patchTab_def EventCache_get_def EventCache_put_def Let_def)

lemma assign_property_same:
  "tab \<noteq> ''__proto__'' \<Longrightarrow> map_of (assign_property tab v ps) tab = Some v"
  by (simp add: assign_property_def update_conv')

lemma assign_property_other:
  "f \<noteq> tab \<Longrightarrow> map_of (assign_property tab v ps) f = map_of ps f"
  by (simp add: assign_property_def update_conv')

text \<open>
  What an overlapped call writes is the entry it read with its own field set: on the
  key it patches, writes that came between its read and its write are overwritten.
  With the two calls the application starts together, the patch of \<open>info\<close> is lost to
  the patch of \<open>teams\<close>.
\<close>

lemma patchTab_writes_what_it_read:
  assumes "store_get k st = Some e"
  shows "\<exists>st'. EventCache_patchTab Completes between Completes t1 t2 k tab v st = (Resolved True, st')
           \<and> store_get k st'
               = Some \<lparr>event_key = k, saved_at = t2, data = assign_property tab v (data e)\<rparr>
           \<and> (\<forall>k'. k' \<noteq> k \<longrightarrow> store_get k' st' = store_get k' (between st))"
proof -
  let ?r = "\<lparr>event_key = k, saved_at = t2, data = assign_property tab v (data e)\<rparr>"
  have "store_get (event_key ?r) (store_put ?r (between st)) = Some ?r"
    by (rule store_get_put_same)
  moreover have "\<forall>k'. k' \<noteq> k \<longrightarrow> store_get k' (store_put ?r (between st)) = store_get k' (between st)"
    using store_get_put_other [of _ ?r "between st"] by simp
  ultimately show ?thesis
    using patchTab_completes [OF assms, of between t1 t2 tab v] by simp
qed

lemma overlapping_patches_lose_a_field:
  "EventCache_patchTab Completes id Completes 7 8 ''2024casj'' ''info'' (JStr ''new info'')
       [\<lparr>event_key = ''2024casj'', saved_at = 5,
         data = [(''info'', JStr ''old info''), (''teams'', JNull)]\<rparr>]
     = (Resolved True,
        [\<lparr>event_key = ''2024casj'', saved_at = 8,
          data = [(''info'', JStr ''new info''), (''teams'', JNull)]\<rparr>])
   \<and> EventCache_patchTab Completes
        (store_put \<lparr>event_key = ''2024casj'', saved_at = 8,
                    data = [(''info'', JStr ''new info''), (''teams'', JNull)]\<rparr>)
        Completes 7 9 ''2024casj'' ''teams'' (JArr [JNum 254])
       [\<lparr>event_key = ''2024casj'', saved_at = 5,
         data = [(''info'', JStr ''old info''), (''teams'', JNull)]\<rparr>]
     = (Resolved True,
        [\<lparr>event_key = ''2024casj'', saved_at = 9,
          data = [(''info'', JStr ''old info''), (''teams'', JArr [JNum 254])]\<rparr>])"
  by (simp add: idb_defs EventCache_patchTab_def EventCache_get_def EventCache_put_def
        store_get_def store_put_def assign_property_def Let_def)

text \<open>
  C3, as stated: for every field name \<open>tab\<close>, after \<open>patchTab(k, tab, tabData)\<close> a
  \<open>get(k)\<close> returns data with \<open>tab\<close> mapped to \<open>tabData\<close>. It fails on the
  name \<open>__proto__\<close>: the call, running alone and served by the storage, resolves
  \<open>true\<close> and refreshes \<open>saved_at\<close>, but the data read back has no such field.
\<close>

theorem patchTab_proto_not_stored:
  "EventCache_patchTab Completes id Completes 7 9 ''2024casj'' ''__proto__'' (JObj [(''teams'', JNull)])
       [\<lparr>event_key = ''2024casj'', saved_at = 5, data = [(''info'', JStr ''Silicon Valley'')]\<rparr>]
     = (Resolved True,
        [\<lparr>event_key = ''2024casj'', saved_at = 9, data = [(''info'', JStr ''Silicon Valley'')]\<rparr>])
   \<and> EventCache_get Completes ''2024casj''
        [\<lparr>event_key = ''2024casj'', saved_at = 9, data = [(''info'', JStr ''Silicon Valley'')]\<rparr>]
     = Resolved (Some \<lparr>event_key = ''2024casj'', saved_at = 9,
                        data = [(''info'', JStr ''Silicon Valley'')]\<rparr>)
   \<and> map_of [(''info'', JStr ''Silicon Valley'')] ''__proto__'' \<noteq> Some (JObj [(''teams'', JNull)])"
  by (simp add: idb_defs EventCache_patchTab_def EventCache_get_def EventCache_put_def
        store_get_def store_put_def assign_property_def Let_def)

text \<open>
  C3, amended. A patch touches only the named field, for every field name other than
  \<open>__proto__\<close> and a call that runs alone (no other write reaches the store between
  its read and its write). For an entry \<open>e\<close> cached under \<open>k\<close>, when the storage
  serves both calls, \<open>patchTab(k, tab, tabData)\<close> resolves \<open>true\<close>; a following
  \<open>get(k)\<close> returns a record under the same key, stamped with the time of the write,
  whose data maps \<open>tab\<close> to \<open>tabData\<close> and agrees with the data of \<open>e\<close> on every
  other field; the entries under other keys are unchanged.
\<close>

theorem patchTab_frame:
  assumes "store_get k st = Some e"
    and "tab \<noteq> ''__proto__''"
    and "EventCache_patchTab Completes id Completes t1 t2 k tab tabData st = (res, st')"
  shows "res = Resolved True
       \<and> (\<exists>r. EventCache_get Completes k st' = Resolved (Some r)
              \<and> event_key r = k \<and> saved_at r = t2
              \<and> map_of (data r) tab = Some tabData
              \<and> (\<forall>f. f \<noteq> tab \<longrightarrow> map_of (data r) f = map_of (data e) f))
       \<and> (\<forall>k'. k' \<noteq> k \<longrightarrow> store_get k' st' = store_get k' st)"
proof -
  let ?r = "\<lparr>event_key = k, saved_at = t2, data = assign_property tab tabData (data e)\<rparr>"
  from assms(3) patchTab_completes [OF assms(1), of id t1 t2 tab tabData]
  have res: "res = Resolved True" and st': "st' = store_put ?r st"
    by simp_all
  have "store_get (event_key ?r) (store_put ?r st) = Some ?r"
    by (rule store_get_put_same)
  then have g: "EventCache_get Completes k st' = Resolved (Some ?r)"
    by (simp add: idb_defs EventCache_get_def st')
  have d: "map_of (data ?r) tab = Some tabData"
    using assms(2) by (simp add: assign_property_same)
  have f: "\<forall>f. f \<noteq> tab \<longrightarrow> map_of (data ?r) f = map_of (data e) f"
    by (simp add: assign_property_other)
  have o: "\<forall>k'. k' \<noteq> k \<longrightarrow> store_get k' st' = store_get k' st"
    using store_get_put_other [of _ ?r st] by (simp add: st')
  from res g d f o show ?thesis by simp
qed

theorem patchTab_frame_witness:
  "store_get ''2024casj''
       [\<lparr>event_key = ''2024casj'', saved_at = 5,
         data = [(''info'', JStr ''Silicon Valley''), (''teams'', JNull)]\<rparr>]
     = Some \<lparr>event_key = ''2024casj'', saved_at = 5,
             data = [(''info'', JStr ''Silicon Valley''), (''teams'', JNull)]\<rparr>
   \<and> ''teams'' \<noteq> ''__proto__''
   \<and> EventCache_patchTab Completes id Completes 7 9 ''2024casj'' ''teams'' (JArr [JNum 254])
       [\<lparr>event_key = ''2024casj'', saved_at = 5,
         data = [(''info'', JStr ''Silicon Valley''), (''teams'', JNull)]\<rparr>]
     = (Resolved True,
        [\<lparr>event_key = ''2024casj'', saved_at = 9,
          data = [(''info'', JStr ''Silicon Valley''), (''teams'', JArr [JNum 254])]\<rparr>])
   \<and> EventCache_get Completes ''2024casj''
        [\<lparr>event_key = ''2024casj'', saved_at = 9,
          data = [(''info'', JStr ''Silicon Valley''), (''teams'', JArr [JNum 254])]\<rparr>]
     = Resolved (Some \<lparr>event_key = ''2024casj'', saved_at = 9,
          data = [(''info'', JStr ''Silicon Valley''), (''teams'', JArr [JNum 254])]\<rparr>)"
proof -
  let ?e = "\<lparr>event_key = ''2024casj'', saved_at = 5,
             data = [(''info'', JStr ''Silicon Valley''), (''teams'', JNull)]\<rparr>"
  let ?e' = "\<lparr>event_key = ''2024casj'', saved_at = 9,
          data = [(''info'', JStr ''Silicon Valley''), (''teams'', JArr [JNum 254])]\<rparr>"
  have h1: "store_get ''2024casj'' [?e] = Some ?e"
    by (simp add: store_get_def)
  have h2: "''teams'' \<noteq> ''__proto__''" by simp
  have h3: "EventCache_patchTab Completes id Completes 7 9 ''2024casj'' ''teams'' (JArr [JNum 254]) [?e]
              = (Resolved True, [?e'])"
    by (simp add: idb_defs EventCache_patchTab_def EventCache_get_def EventCache_put_def
          store_get_def store_put_def assign_property_def Let_def)
  from patchTab_frame [OF h1 h2 h3]
  obtain r where "EventCache_get Completes ''2024casj'' [?e'] = Resolved (Some r)"
    by blast
  moreover have "EventCache_get Completes ''2024casj'' [?e'] = Resolved (Some ?e')"
    by (simp add: idb_defs EventCache_get_def store_get_def)
  ultimately show ?thesis using h1 h2 h3 by simp
qed

text \<open>
  C7. When \<open>EventCache.remove(k)\<close> has succeeded (resolved \<open>true\<close>), a following
  \<open>get(k)\<close> that the storage serves returns \<open>null\<close>. Removing a key that is not
  cached succeeds when the storage serves the call and leaves the store as it was; and
  whatever the outcome of a \<open>remove(k)\<close>, the entry under any other key is unchanged.
\<close>

theorem remove_then_get:
  "(EventCache_remove env k st = (Resolved True, st') \<longrightarrow>
      EventCache_get Completes k st' = Resolved None)
   \<and> (store_get k st = None \<longrightarrow> EventCache_remove Completes k st = (Resolved True, st))
   \<and> (EventCache_remove env k st = (res, st') \<longrightarrow> k' \<noteq> k \<longrightarrow>
        store_get k' st' = store_get k' st)"
proof (intro conjI impI)
  assume "EventCache_remove env k st = (Resolved True, st')"
  then have "st' = store_delete k st" by (simp add: remove_succeeds_iff)
  then show "EventCache_get Completes k st' = Resolved None"
    by (simp add: idb_defs EventCache_get_def store_get_delete_same)
next
  assume "store_get k st = None"
  then show "EventCache_remove Completes k st = (Resolved True, st)"
    by (simp add: idb_defs EventCache_remove_def store_delete_absent)
next
  assume r: "EventCache_remove env k st = (res, st')" and ne: "k' \<noteq> k"
  from r have "st' = st \<or> st' = store_delete k st"
    by (cases env) (auto simp: idb_defs EventCache_remove_def)
  with ne show "store_get k' st' = store_get k' st"
    by (auto simp: store_get_delete_other)
qed

theorem remove_then_get_witness:
  "EventCache_remove Completes ''2024casj''
       [\<lparr>event_key = ''2024casj'', saved_at = 5, data = []\<rparr>,
        \<lparr>event_key = ''2024cada'', saved_at = 6, data = []\<rparr>]
     = (Resolved True, [\<lparr>event_key = ''2024cada'', saved_at = 6, data = []\<rparr>])
   \<and> EventCache_get Completes ''2024casj'' [\<lparr>event_key = ''2024cada'', saved_at = 6, data = []\<rparr>]
     = Resolved None
   \<and> store_get ''2024casj'' [\<lparr>event_key = ''2024cada'', saved_at = 6, data = []\<rparr>] = None
   \<and> EventCache_remove Completes ''2024casj'' [\<lparr>event_key = ''2024cada'', saved_at = 6, data = []\<rparr>]
     = (Resolved True, [\<lparr>event_key = ''2024cada'', saved_at = 6, data = []\<rparr>])
   \<and> store_get ''2024cada'' [\<lparr>event_key = ''2024cada'', saved_at = 6, data = []\<rparr>]
     = store_get ''2024cada''
         [\<lparr>event_key = ''2024casj'', saved_at = 5, data = []\<rparr>,
          \<lparr>event_key = ''2024cada'', saved_at = 6, data = []\<rparr>]"
proof -
  let ?a = "\<lparr>event_key = ''2024casj'', saved_at = 5, data = []\<rparr>"
  let ?b = "\<lparr>event_key = ''2024cada'', saved_at = 6, data = []\<rparr>"
  have h1: "EventCache_remove Completes ''2024casj'' [?a, ?b] = (Resolved True, [?b])"
    by (simp add: idb_defs EventCache_remove_def store_delete_def)
  have h2: "store_get ''2024casj'' [?b] = None"
    by (simp add: store_get_def)
  have h3: "''2024cada'' \<noteq> ''2024casj''" by simp
  from remove_then_get [of Completes "''2024casj''" "[?a, ?b]" "[?b]" "Resolved True" "''2024cada''"]
       remove_then_get [of Completes "''2024casj''" "[?b]" "[?b]" "Resolved True" "''2024cada''"]
       h1 h2 h3
  show ?thesis by simp
qed

lemma open_failure_fallbacks:
  "EventCache_get (OpenFails e) k st = Resolved None"
  "EventCache_put (OpenFails e) now k d st = (Resolved False, st)"
  "EventCache_remove (OpenFails e) k st = (Resolved False, st)"
  "EventCache_list (OpenFails e) st = Resolved []"
  "EventCache_clear (OpenFails e) st = (Resolved False, st)"
  by (simp_all add: idb_defs EventCache_get_def EventCache_put_def EventCache_remove_def
        EventCache_list_def EventCache_clear_def)

lemma patchTab_never_rejects:
  "fst (EventCache_patchTab env_get between env_put t1 t2 k tab v st) \<noteq> Rejected e"
  by (cases env_get; cases env_put; cases "store_get k st")
     (simp_all add: idb_defs EventCache_patchTab_def EventCache_get_def EventCache_put_def Let_def)

lemma request_failure_propagates:
  "EventCache_get (RequestFails e) k st = Rejected e"
  "EventCache_put (RequestFails e) now k d st = (Rejected e, st)"
  "EventCache_remove (RequestFails e) k st = (Rejected e, st)"
  "EventCache_list (RequestFails e) st = Rejected e"
  "EventCache_clear (RequestFails e) st = (Rejected e, st)"
  by (simp_all add: idb_defs EventCache_get_def EventCache_put_def EventCache_remove_def
        EventCache_list_def EventCache_clear_def)

text \<open>
  C8. No operation of the cache is to throw to its caller. When the database opens and
  the request or its transaction then fails, \<open>get\<close>, \<open>put\<close>, \<open>remove\<close>,
  \<open>list\<close> and \<open>clear\<close> reject with the storage's error instead of returning their
  fallback: the rejecting promise is returned without \<open>await\<close>, so the \<open>catch\<close>
  around it is not reached. (A failure to open the database does yield the fallbacks,
  \<open>patchTab\<close>, which awaits, never rejects, and on a key with no entry it returns
  \<open>false\<close> with the store unchanged: the lemmas above.)
\<close>

theorem request_failure_rejects:
  "EventCache_get (RequestFails (DOMException ''UnknownError'')) ''2024casj'' []
     = Rejected (DOMException ''UnknownError'')
   \<and> EventCache_put (RequestFails (DOMException ''QuotaExceededError'')) 1700000000000
        ''2024casj'' [(''info'', JNull)] []
     = (Rejected (DOMException ''QuotaExceededError''), [])
   \<and> EventCache_remove (RequestFails (DOMException ''UnknownError'')) ''2024casj'' []
     = (Rejected (DOMException ''UnknownError''), [])
   \<and> EventCache_list (RequestFails (DOMException ''UnknownError'')) []
     = Rejected (DOMException ''UnknownError'')
   \<and> EventCache_clear (RequestFails (DOMException ''UnknownError'')) []
     = (Rejected (DOMException ''UnknownError''), [])"
  by (simp add: idb_defs EventCache_get_def EventCache_put_def EventCache_remove_def
        EventCache_list_def EventCache_clear_def)


section \<open>Properties of the fetch wrapper\<close>

lemmas api_op_defs =
  seasonEvents_def eventInfo_def eventTeams_def eventSummary_def eventSummaryRefresh_def
  eventConnections_def clearCache_def refreshRankings_def playoffMatches_def allMatches_def
  matchBreakdown_def teamPerf_def alliances_def teamStats_def headToHead_def compareTeams_def
  regionFacts_def regionsList_def eventHistory_def savedList_def saveEvent_def loadSaved_def
  deleteSaved_def

lemma API_get_method: "req_method (fst (API_get f path)) = GET"
  by (simp add: API_get_def)

lemma API_post_method: "req_method (fst (API_post f path b)) = POST"
  by (simp add: API_post_def)

lemma API_del_method: "req_method (fst (API_del f path)) = DELETE"
  by (simp add: API_del_def)

text \<open>
  C1, as stated: every request of the module is a GET. It fails on \<open>saveEvent\<close>,
  which goes through \<open>API.post\<close>.
\<close>

theorem saveEvent_not_get:
  "req_method (fst (saveEvent (Resolved \<lparr>ok = True, status = 200, json_body = Some (JObj [])\<rparr>)
                      (JStr ''2024casj'') (JObj [(''info'', JNull)]))) \<noteq> GET"
  by (simp add: saveEvent_def API_post_def)

text \<open>
  C1, amended. Every operation of the module issues a GET, except the primitive
  \<open>post\<close> and \<open>saveEvent\<close>, which issue a POST, and the primitive \<open>del\<close> and
  \<open>deleteSaved\<close>, which issue a DELETE.
\<close>

theorem api_request_methods:
  "req_method (fst (API_get f path)) = GET
   \<and> req_method (fst (seasonEvents f yr)) = GET
   \<and> req_method (fst (eventInfo f ek)) = GET
   \<and> req_method (fst (eventTeams f ek)) = GET
   \<and> req_method (fst (eventSummary f ek)) = GET
   \<and> req_method (fst (eventSummaryRefresh f ek)) = GET
   \<and> req_method (fst (eventConnections f ek allTime)) = GET
   \<and> req_method (fst (clearCache f ek)) = GET
   \<and> req_method (fst (refreshRankings f ek)) = GET
   \<and> req_method (fst (playoffMatches f ek)) = GET
   \<and> req_method (fst (allMatches f ek)) = GET
   \<and> req_method (fst (matchBreakdown f mk)) = GET
   \<and> req_method (fst (teamPerf f ek num)) = GET
   \<and> req_method (fst (alliances f ek)) = GET
   \<and> req_method (fst (teamStats f num year)) = GET
   \<and> req_method (fst (headToHead f a b year allTime)) = GET
   \<and> req_method (fst (compareTeams f ek teamKeys)) = GET
   \<and> req_method (fst (regionFacts f name)) = GET
   \<and> req_method (fst (regionsList f)) = GET
   \<and> req_method (fst (eventHistory f ek)) = GET
   \<and> req_method (fst (savedList f)) = GET
   \<and> req_method (fst (loadSaved f ek)) = GET
   \<and> req_method (fst (API_post f path body)) = POST
   \<and> req_method (fst (saveEvent f ek d)) = POST
   \<and> req_method (fst (API_del f path)) = DELETE
   \<and> req_method (fst (deleteSaved f ek)) = DELETE"
  unfolding api_op_defs
  by (simp only: API_get_method API_post_method API_del_method simp_thms)

theorem api_request_methods_witness:
  "req_method (fst (eventInfo (Resolved \<lparr>ok = True, status = 200, json_body = Some (JObj [])\<rparr>)
                     (JStr ''2024casj''))) = GET
   \<and> req_url (fst (eventInfo (Resolved \<lparr>ok = True, status = 200, json_body = Some (JObj [])\<rparr>)
                     (JStr ''2024casj''))) = ''/api/events/2024casj/info''
   \<and> req_method (fst (deleteSaved (Resolved \<lparr>ok = True, status = 200, json_body = Some (JObj [])\<rparr>)
                     (JStr ''2024casj''))) = DELETE"
  using api_request_methods
    [of "Resolved \<lparr>ok = True, status = 200, json_body = Some (JObj [])\<rparr>" _ _ "JStr ''2024casj''"]
  by (simp add: eventInfo_def API_get_def)

text \<open>
  C5, as stated: \<open>API.get\<close> rejects exactly when the response is not ok, and resolves
  with the parsed body when it is ok. It fails on an ok response whose body is not
  JSON: \<open>resp.json()\<close> rejects and so does \<open>API.get\<close>.
\<close>

theorem ok_response_rejects:
  "snd (API_get (Resolved \<lparr>ok = True, status = 200, json_body = None\<rparr>) ''/events/2024casj/info'')
     = Rejected SyntaxError"
  by (simp add: API_get_def throw_unless_ok_def resp_json_def)

lemma get_prop_defined:
  "body \<noteq> JNull \<Longrightarrow> body \<noteq> JUndefined \<Longrightarrow> get_prop body n = Inr (opt_prop body n)"
  by (cases body) simp_all

lemma http_message_converts: "\<not> to_string_throws (JStr s)"
  by simp

lemma throw_unless_ok_rejects: "\<not> ok resp \<Longrightarrow> \<exists>e. throw_unless_ok resp = Rejected e"
  by (simp add: throw_unless_ok_def Let_def split: sum.splits)

lemma throw_unless_ok_detail:
  assumes "\<not> ok resp" and "json_body resp = Some body"
    and "body \<noteq> JNull" and "body \<noteq> JUndefined"
  shows "throw_unless_ok resp =
           (if truthy (opt_prop body ''detail'')
            then (if to_string_throws (opt_prop body ''detail'') then Rejected TypeError
                  else Rejected (Error (ToString (opt_prop body ''detail''))))
            else Rejected (Error (''HTTP '' @ num_to_string (uint (status resp)))))"
  using assms
  by (simp add: throw_unless_ok_def resp_json_def get_prop_defined js_or_def Let_def)

text \<open>
  C5, amended. \<open>API.get\<close> rejects when \<open>fetch\<close> rejects (with that error), when an
  ok response's body is not JSON (with the parser's error), and whenever the response
  is not ok. For a response that is not ok: when the body is not JSON, or is a value
  other than \<open>null\<close> whose \<open>detail\<close> is absent or falsy, it rejects with an
  \<open>Error\<close> whose message is \<open>HTTP <status>\<close>; when \<open>detail\<close> is truthy it
  rejects with an \<open>Error\<close> whose message is the string form of \<open>detail\<close> (for a
  detail of \<open>exact_string_form\<close>; a non-empty string \<open>detail\<close> of an object body
  is the message itself), unless converting \<open>detail\<close> to a string throws, when it
  rejects with that \<open>TypeError\<close>. When the response is ok and its body is JSON,
  \<open>API.get\<close> resolves with the parsed body.
\<close>

theorem API_get_outcome:
  "snd (API_get (Rejected e) path) = Rejected e
   \<and> (ok resp \<longrightarrow> json_body resp = Some v \<longrightarrow> snd (API_get (Resolved resp) path) = Resolved v)
   \<and> (ok resp \<longrightarrow> json_body resp = None \<longrightarrow>
        snd (API_get (Resolved resp) path) = Rejected SyntaxError)
   \<and> (\<not> ok resp \<longrightarrow> (\<exists>e'. snd (API_get (Resolved resp) path) = Rejected e'))
   \<and> (\<not> ok resp \<longrightarrow> json_body resp = None \<longrightarrow>
        snd (API_get (Resolved resp) path)
          = Rejected (Error (''HTTP '' @ num_to_string (uint (status resp)))))
   \<and> (\<not> ok resp \<longrightarrow> json_body resp = Some body \<longrightarrow> body \<noteq> JNull \<longrightarrow> body \<noteq> JUndefined \<longrightarrow>
        \<not> truthy (opt_prop body ''detail'') \<longrightarrow>
        snd (API_get (Resolved resp) path)
          = Rejected (Error (''HTTP '' @ num_to_string (uint (status resp)))))
   \<and> (\<not> ok resp \<longrightarrow> json_body resp = Some body \<longrightarrow> body \<noteq> JNull \<longrightarrow> body \<noteq> JUndefined \<longrightarrow>
        truthy (opt_prop body ''detail'') \<longrightarrow> \<not> to_string_throws (opt_prop body ''detail'') \<longrightarrow>
        exact_string_form (opt_prop body ''detail'') \<longrightarrow>
        snd (API_get (Resolved resp) path)
          = Rejected (Error (ToString (opt_prop body ''detail''))))
   \<and> (\<not> ok resp \<longrightarrow> json_body resp = Some body \<longrightarrow> body \<noteq> JNull \<longrightarrow> body \<noteq> JUndefined \<longrightarrow>
        truthy (opt_prop body ''detail'') \<longrightarrow> to_string_throws (opt_prop body ''detail'') \<longrightarrow>
        snd (API_get (Resolved resp) path) = Rejected TypeError)
   \<and> (\<not> ok resp \<longrightarrow> json_body resp = Some (JObj ps) \<longrightarrow> map_of ps ''detail'' = Some (JStr s) \<longrightarrow>
        s \<noteq> [] \<longrightarrow> snd (API_get (Resolved resp) path) = Rejected (Error s))"
proof -
  have 1: "snd (API_get (Rejected e) path) = Rejected e"
    by (simp add: API_get_def)
  have 2: "ok resp \<longrightarrow> json_body resp = Some v \<longrightarrow> snd (API_get (Resolved resp) path) = Resolved v"
    by (simp add: API_get_def throw_unless_ok_def resp_json_def)
  have 3: "ok resp \<longrightarrow> json_body resp = None \<longrightarrow>
        snd (API_get (Resolved resp) path) = Rejected SyntaxError"
    by (simp add: API_get_def throw_unless_ok_def resp_json_def)
  have 4: "\<not> ok resp \<longrightarrow> (\<exists>e'. snd (API_get (Resolved resp) path) = Rejected e')"
    by (simp add: API_get_def throw_unless_ok_rejects)
  have 5: "\<not> ok resp \<longrightarrow> json_body resp = None \<longrightarrow>
        snd (API_get (Resolved resp) path)
          = Rejected (Error (''HTTP '' @ num_to_string (uint (status resp))))"
    by (simp add: API_get_def throw_unless_ok_def resp_json_def js_or_def)
  have 6: "\<not> ok resp \<longrightarrow> json_body resp = Some body \<longrightarrow> body \<noteq> JNull \<longrightarrow> body \<noteq> JUndefined \<longrightarrow>
        \<not> truthy (opt_prop body ''detail'') \<longrightarrow>
        snd (API_get (Resolved resp) path)
          = Rejected (Error (''HTTP '' @ num_to_string (uint (status resp))))"
    by (simp add: API_get_def throw_unless_ok_detail)
  have 7: "\<not> ok resp \<longrightarrow> json_body resp = Some body \<longrightarrow> body \<noteq> JNull \<longrightarrow> body \<noteq> JUndefined \<longrightarrow>
        truthy (opt_prop body ''detail'') \<longrightarrow> \<not> to_string_throws (opt_prop body ''detail'') \<longrightarrow>
        exact_string_form (opt_prop body ''detail'') \<longrightarrow>
        snd (API_get (Resolved resp) path)
          = Rejected (Error (ToString (opt_prop body ''detail'')))"
    by (simp add: API_get_def throw_unless_ok_detail)
  have 8: "\<not> ok resp \<longrightarrow> json_body resp = Some body \<longrightarrow> body \<noteq> JNull \<longrightarrow> body \<noteq> JUndefined \<longrightarrow>
        truthy (opt_prop body ''detail'') \<longrightarrow> to_string_throws (opt_prop body ''detail'') \<longrightarrow>
        snd (API_get (Resolved resp) path) = Rejected TypeError"
    by (simp add: API_get_def throw_unless_ok_detail)
  have 9: "\<not> ok resp \<longrightarrow> json_body resp = Some (JObj ps) \<longrightarrow> map_of ps ''detail'' = Some (JStr s) \<longrightarrow>
        s \<noteq> [] \<longrightarrow> snd (API_get (Resolved resp) path) = Rejected (Error s)"
    by (simp add: API_get_def throw_unless_ok_def resp_json_def js_or_def)
  from 1 2 3 4 5 6 7 8 9 show ?thesis by blast
qed

theorem API_get_outcome_witness:
  "snd (API_get (Resolved \<lparr>ok = False, status = 404,
                            json_body = Some (JObj [(''detail'', JStr ''Event not found'')])\<rparr>)
          ''/events/2024xx/info'') = Rejected (Error ''Event not found'')
   \<and> snd (API_get (Resolved \<lparr>ok = False, status = 502, json_body = None\<rparr>) ''/events/2024xx/info'')
        = Rejected (Error ''HTTP 502'')
   \<and> snd (API_get (Resolved \<lparr>ok = True, status = 200, json_body = Some (JArr [JNum 1])\<rparr>)
             ''/events/2024xx/info'') = Resolved (JArr [JNum 1])
   \<and> snd (API_get (Resolved \<lparr>ok = False, status = 422,
                                json_body = Some (JObj [(''detail'', JArr [JNum 7, JStr ''year''])])\<rparr>)
             ''/events/2024xx/info'') = Rejected (Error ''7,year'')
   \<and> snd (API_get (Resolved \<lparr>ok = False, status = 500,
                                json_body = Some (JObj [(''detail'', JObj [(''toString'', JNum 1)])])\<rparr>)
             ''/events/2024xx/info'') = Rejected TypeError
   \<and> snd (API_get (Resolved \<lparr>ok = False, status = 500,
                                json_body = Some (JObj [(''detail'', JStr [])])\<rparr>)
             ''/events/2024xx/info'') = Rejected (Error ''HTTP 500'')"
  using API_get_outcome
      [of _ "''/events/2024xx/info''"
          "\<lparr>ok = False, status = 404, json_body = Some (JObj [(''detail'', JStr ''Event not found'')])\<rparr>"
          _ _ "[(''detail'', JStr ''Event not found'')]" "''Event not found''"]
    API_get_outcome
      [of _ "''/events/2024xx/info''" "\<lparr>ok = False, status = 502, json_body = None\<rparr>"]
    API_get_outcome
      [of _ "''/events/2024xx/info''"
          "\<lparr>ok = True, status = 200, json_body = Some (JArr [JNum 1])\<rparr>" "JArr [JNum 1]"]
    API_get_outcome
      [of _ "''/events/2024xx/info''"
          "\<lparr>ok = False, status = 422,
            json_body = Some (JObj [(''detail'', JArr [JNum 7, JStr ''year''])])\<rparr>"
          _ "JObj [(''detail'', JArr [JNum 7, JStr ''year''])]"]
    API_get_outcome
      [of _ "''/events/2024xx/info''"
          "\<lparr>ok = False, status = 500,
            json_body = Some (JObj [(''detail'', JObj [(''toString'', JNum 1)])])\<rparr>"
          _ "JObj [(''detail'', JObj [(''toString'', JNum 1)])]"]
    API_get_outcome
      [of _ "''/events/2024xx/info''"
          "\<lparr>ok = False, status = 500, json_body = Some (JObj [(''detail'', JStr [])])\<rparr>"
          _ "JObj [(''detail'', JStr [])]"]
  by (simp add: num_to_string_def)


section \<open>Properties of the rankings sort\<close>

lemma mset_insert_by: "mset (insert_by cmp x xs) = add_mset x (mset xs)"
  by (induction xs) auto

lemma mset_array_sort: "mset (array_sort cmp xs) = mset xs"
  by (induction xs) (auto simp: array_sort_def mset_insert_by)

lemma set_insert_by: "set (insert_by cmp x xs) = insert x (set xs)"
  by (induction xs) auto

lemma sorted_insert_by:
  assumes total: "\<And>a b. cmp a b \<le> 0 \<or> cmp b a \<le> 0"
    and trans: "\<And>a b c. cmp a b \<le> 0 \<Longrightarrow> cmp b c \<le> 0 \<Longrightarrow> cmp a c \<le> 0"
  shows "sorted_wrt (\<lambda>a b. cmp a b \<le> 0) xs \<Longrightarrow>
         sorted_wrt (\<lambda>a b. cmp a b \<le> 0) (insert_by cmp x xs)"
proof (induction xs)
  case Nil
  then show ?case by simp
next
  case (Cons y ys)
  show ?case
  proof (cases "cmp x y \<le> 0")
    case True
    with Cons.prems show ?thesis by (auto intro: trans)
  next
    case False
    with total [of x y] have "cmp y x \<le> 0" by simp
    with False Cons show ?thesis by (auto simp: set_insert_by)
  qed
qed

lemma sorted_array_sort:
  assumes total: "\<And>a b. cmp a b \<le> 0 \<or> cmp b a \<le> 0"
    and trans: "\<And>a b c. cmp a b \<le> 0 \<Longrightarrow> cmp b c \<le> 0 \<Longrightarrow> cmp a c \<le> 0"
  shows "sorted_wrt (\<lambda>a b. cmp a b \<le> 0) (array_sort cmp xs)"
proof (induction xs)
  case Nil
  show ?case by (simp add: array_sort_def)
next
  case (Cons x xs)
  have "array_sort cmp (x # xs) = insert_by cmp x (array_sort cmp xs)"
    by (simp add: array_sort_def)
  with Cons sorted_insert_by [of cmp, OF total trans] show ?case by simp
qed

lemma rank_compare_le:
  "sort_compare lower lc ''rank'' True a b \<le> 0 \<longleftrightarrow> rank_order a b"
  by (auto simp: sort_compare_def rank_order_def effective_rank_def Let_def)

lemma sorted_by_rank:
  "sorted_wrt rank_order (array_sort (sort_compare lower lc ''rank'' True) ts)"
proof -
  let ?cmp = "sort_compare lower lc ''rank'' True"
  have "sorted_wrt (\<lambda>a b. ?cmp a b \<le> 0) (array_sort ?cmp ts)"
  proof (rule sorted_array_sort)
    fix a b show "?cmp a b \<le> 0 \<or> ?cmp b a \<le> 0"
      unfolding rank_compare_le by (auto simp: rank_order_def)
  next
    fix a b c assume "?cmp a b \<le> 0" "?cmp b c \<le> 0"
    then show "?cmp a c \<le> 0"
      unfolding rank_compare_le by (auto simp: rank_order_def)
  qed
  then show ?thesis by (simp add: rank_compare_le)
qed

lemma unranked_999: "\<not> ranked t \<Longrightarrow> effective_rank t = 999"
  by (cases "rank t") (simp_all add: ranked_def effective_rank_def)

text \<open>
  C10. Sorting by rank, ascending, treats a team whose \<open>rank\<close> is not a number as
  rank 999. The table after \<open>sortTeamsData\<close> holds the same rows; of any two rows the
  earlier has the smaller or equal effective rank, and on equal effective ranks the
  smaller or equal team number; and when every numeric rank is below 999, no unranked
  team stands before a ranked one.
\<close>

theorem rank_sort_order:
  assumes d: "teamsData st = Some ts"
    and c: "teamsSortCol st = ''rank''"
    and a: "teamsSortAsc st"
    and r: "\<forall>t \<in> set ts. ranked t \<longrightarrow> effective_rank t < 999"
  shows "\<exists>ts'. teamsData (sortTeamsData lower lc st) = Some ts'
           \<and> mset ts' = mset ts
           \<and> (\<forall>i j. i < j \<and> j < length ts' \<longrightarrow>
                 effective_rank (ts' ! i) \<le> effective_rank (ts' ! j)
               \<and> (effective_rank (ts' ! i) = effective_rank (ts' ! j) \<longrightarrow>
                    team_number (ts' ! i) \<le> team_number (ts' ! j))
               \<and> \<not> (\<not> ranked (ts' ! i) \<and> ranked (ts' ! j)))"
proof -
  let ?ts = "array_sort (sort_compare lower lc ''rank'' True) ts"
  have res: "teamsData (sortTeamsData lower lc st) = Some ?ts"
    using d c a by (simp add: sortTeamsData_def)
  have m: "mset ?ts = mset ts" by (rule mset_array_sort)
  have s: "sorted_wrt rank_order ?ts" by (rule sorted_by_rank)
  have o: "effective_rank (?ts ! i) \<le> effective_rank (?ts ! j)
          \<and> (effective_rank (?ts ! i) = effective_rank (?ts ! j) \<longrightarrow>
               team_number (?ts ! i) \<le> team_number (?ts ! j))
          \<and> \<not> (\<not> ranked (?ts ! i) \<and> ranked (?ts ! j))"
    if ij: "i < j \<and> j < length ?ts" for i j
  proof -
    from s ij have ro: "rank_order (?ts ! i) (?ts ! j)"
      by (simp add: sorted_wrt_iff_nth_less)
    from ij have "?ts ! j \<in> set ?ts" by simp
    then have "?ts ! j \<in> set ts" using m by (metis set_mset_mset)
    with r have rj: "ranked (?ts ! j) \<longrightarrow> effective_rank (?ts ! j) < 999" by blast
    from ro rj unranked_999 [of "?ts ! i"] show ?thesis
      by (auto simp: rank_order_def)
  qed
  from res m o show ?thesis by blast
qed

theorem rank_sort_order_witness:
  "effective_rank (sample_team (JNum 2) 1678) < 999
   \<and> effective_rank (sample_team (JNum 2) 118) < 999
   \<and> \<not> ranked (sample_team (JStr ''-'') 330)
   \<and> \<not> ranked (sample_team (JStr ''-'') 254)
   \<and> teamsData (sortTeamsData id byte_compare
        \<lparr>teamsData = Some [sample_team (JStr ''-'') 330, sample_team (JNum 2) 1678,
                            sample_team (JStr ''-'') 254, sample_team (JNum 2) 118],
         teamsSortCol = ''rank'', teamsSortAsc = True\<rparr>)
     = Some [sample_team (JNum 2) 118, sample_team (JNum 2) 1678,
             sample_team (JStr ''-'') 254, sample_team (JStr ''-'') 330]"
proof -
  let ?ts = "[sample_team (JStr ''-'') 330, sample_team (JNum 2) 1678,
              sample_team (JStr ''-'') 254, sample_team (JNum 2) 118]"
  let ?st = "\<lparr>teamsData = Some ?ts, teamsSortCol = ''rank'', teamsSortAsc = True\<rparr>"
  have h1: "teamsData ?st = Some ?ts" by simp
  have h2: "teamsSortCol ?st = ''rank''" by simp
  have h3: "teamsSortAsc ?st" by simp
  have h4: "\<forall>t \<in> set ?ts. ranked t \<longrightarrow> effective_rank t < 999"
    by (simp add: sample_team_def ranked_def effective_rank_def)
  have e: "teamsData (sortTeamsData id byte_compare ?st)
     = Some [sample_team (JNum 2) 118, sample_team (JNum 2) 1678,
             sample_team (JStr ''-'') 254, sample_team (JStr ''-'') 330]"
    by (simp add: sortTeamsData_def array_sort_def sort_compare_def sample_team_def)
  have g: "effective_rank (sample_team (JNum 2) 1678) < 999
      \<and> effective_rank (sample_team (JNum 2) 118) < 999
      \<and> \<not> ranked (sample_team (JStr ''-'') 330)
      \<and> \<not> ranked (sample_team (JStr ''-'') 254)"
    by (simp add: sample_team_def ranked_def effective_rank_def)
  from rank_sort_order [OF h1 h2 h3 h4, of id byte_compare] e g show ?thesis by simp
qed


section \<open>Properties of the playoff renderers\<close>

lemma renderAlliance_cases:
  "renderAlliance hf color m = Inr h \<Longrightarrow> color = ''red'' \<or> color = ''blue''"
  by (auto simp: renderAlliance_def split: if_splits)

lemma index_match_fst:
  "fst (index_match (bs, fs) m) s =
     (if bracket m \<noteq> ''final'' \<and> set_number m = s then keep_latest (bs s) [m] else bs s)"
  by (cases "bs (set_number m)") (auto simp: index_match_def Let_def)

lemma index_match_snd:
  "snd (index_match (bs, fs) m) = (if bracket m = ''final'' then fs @ [m] else fs)"
  by (cases "bs (set_number m)") (auto simp: index_match_def Let_def)

lemma foldl_index_match:
  "fst (foldl index_match (bs, fs) pd) s = keep_latest (bs s) (set_candidates s pd)
   \<and> snd (foldl index_match (bs, fs) pd) = fs @ final_candidates pd"
proof (induction pd arbitrary: bs fs)
  case Nil
  show ?case by (simp add: set_candidates_def final_candidates_def)
next
  case (Cons m pd)
  obtain bs' fs' where step: "index_match (bs, fs) m = (bs', fs')"
    by (cases "index_match (bs, fs) m")
  from step index_match_fst [of bs fs m s] index_match_snd [of bs fs m]
  have b: "bs' s = (if bracket m \<noteq> ''final'' \<and> set_number m = s
                    then keep_latest (bs s) [m] else bs s)"
    and f: "fs' = (if bracket m = ''final'' then fs @ [m] else fs)"
    by simp_all
  from Cons.IH [of bs' fs'] step b f show ?case
    by (cases "bs s") (auto simp: set_candidates_def final_candidates_def)
qed

lemma keep_latest_Some:
  "\<exists>m. keep_latest (Some a) xs = Some m \<and> (m = a \<or> m \<in> set xs)
       \<and> match_number a \<le> match_number m
       \<and> (\<forall>m' \<in> set xs. match_number m' \<le> match_number m)"
proof (induction xs arbitrary: a)
  case Nil
  show ?case by simp
next
  case (Cons x xs)
  show ?case
  proof (cases "match_number x > match_number a")
    case True
    with Cons.IH [of x] show ?thesis by auto
  next
    case False
    with Cons.IH [of a] show ?thesis by auto
  qed
qed

lemma keep_latest_None: "latest_replay (keep_latest None xs) xs"
proof (cases xs)
  case Nil
  then show ?thesis by (simp add: latest_replay_def)
next
  case (Cons x xs')
  with keep_latest_Some [of x xs'] show ?thesis
    by (auto simp: latest_replay_def)
qed

lemma bySet_latest:
  "latest_replay (fst (index_matches pd) s) (set_candidates s pd)"
  using foldl_index_match [of Map.empty "[]" pd s] keep_latest_None [of "set_candidates s pd"]
  by (simp add: index_matches_def)

lemma foldl_keep_latest:
  "Some (foldl (\<lambda>a b. if match_number b > match_number a then b else a) f fs)
     = keep_latest (Some f) fs"
  by (induction fs arbitrary: f) auto

lemma grand_final_latest: "latest_replay (grand_final fs) fs"
proof (cases fs)
  case Nil
  then show ?thesis by (simp add: grand_final_def latest_replay_def)
next
  case (Cons f fs')
  then have "grand_final fs = keep_latest None fs"
    by (simp add: grand_final_def foldl_keep_latest)
  with keep_latest_None [of fs] show ?thesis by simp
qed

lemma gf_latest:
  "latest_replay (grand_final (snd (index_matches pd))) (final_candidates pd)"
  using foldl_index_match [of Map.empty "[]" pd 0] grand_final_latest [of "final_candidates pd"]
  by (simp add: index_matches_def)

text \<open>
  C6, as stated: for every playoff data list the tree shows its slots, a slot without a
  match showing TBD. It fails on the empty list, for which \<open>renderBracketTree\<close>
  returns early with the message that no playoff matches were found and shows no slot.
\<close>

theorem empty_playoffs_show_no_slots:
  "renderBracketTree None (Some []) = NoPlayoffMatches
   \<and> renderBracketTree None (Some []) \<noteq>
       BracketTree
         [TBD ''M1'' ''#1 vs #8'', TBD ''M2'' ''#4 vs #5'', TBD ''M3'' ''#2 vs #7'',
          TBD ''M4'' ''#3 vs #6'', TBD ''M7'' ''W1 vs W2'', TBD ''M8'' ''W3 vs W4'',
          TBD ''M11'' ''W7 vs W8'']
         (TBD ''Final'' ''W11 vs W13'')
         [TBD ''M5'' ''L1 vs L2'', TBD ''M6'' ''L3 vs L4'', TBD ''M9'' ''W5 vs L8'',
          TBD ''M10'' ''W6 vs L7'', TBD ''M12'' ''W9 vs W10'', TBD ''M13'' ''W12 vs L11'']"
  by (simp add: renderBracketTree_def)

text \<open>
  C6, amended. For a missing or an empty playoff data list, whatever teams are loaded,
  \<open>renderBracketTree\<close> shows the message that no playoff matches were found and no
  slot. For every playoff data list that is not empty it shows the slots of sets 1, 2,
  3, 4, 7, 8, 11 (upper bracket), the Grand Final, and the slots of sets 5, 6, 9, 10,
  12, 13 (lower bracket). The slot of a set shows a match of that \<open>set_number\<close>
  outside the final bracket whose \<open>match_number\<close> is greatest among those; the
  Grand Final shows a match of the final bracket whose \<open>match_number\<close> is greatest
  among those; a slot shows TBD exactly when there is no such match, and otherwise
  shows the teams of the chosen match.
\<close>

theorem bracket_slots_show_latest_replay:
  "renderBracketTree td None = NoPlayoffMatches
   \<and> renderBracketTree td (Some []) = NoPlayoffMatches
   \<and> (pd \<noteq> [] \<longrightarrow>
        renderBracketTree td (Some pd) =
           BracketTree
             (map (\<lambda>(n, l). slot (nickMap td) (fst (index_matches pd))
                              (grand_final (snd (index_matches pd))) (SetNum n) l)
                [(1, ''M1''), (2, ''M2''), (3, ''M3''), (4, ''M4''), (7, ''M7''), (8, ''M8''),
                 (11, ''M11'')])
             (slot (nickMap td) (fst (index_matches pd))
                (grand_final (snd (index_matches pd))) SetF ''Final'')
             (map (\<lambda>(n, l). slot (nickMap td) (fst (index_matches pd))
                              (grand_final (snd (index_matches pd))) (SetNum n) l)
                [(5, ''M5''), (6, ''M6''), (9, ''M9''), (10, ''M10''), (12, ''M12''),
                 (13, ''M13'')])
       \<and> (\<forall>n. latest_replay
                 (slot_match (fst (index_matches pd)) (grand_final (snd (index_matches pd)))
                    (SetNum n))
                 (set_candidates n pd))
       \<and> latest_replay
           (slot_match (fst (index_matches pd)) (grand_final (snd (index_matches pd))) SetF)
           (final_candidates pd)
       \<and> (\<forall>k l. (slot_match (fst (index_matches pd)) (grand_final (snd (index_matches pd))) k
                   = None)
                = (slot (nickMap td) (fst (index_matches pd))
                     (grand_final (snd (index_matches pd))) k l = TBD l (SET_DESCRIPTIONS k)))
       \<and> (\<forall>k l m. slot_match (fst (index_matches pd)) (grand_final (snd (index_matches pd))) k
                     = Some m \<longrightarrow>
                (\<exists>s. slot (nickMap td) (fst (index_matches pd))
                        (grand_final (snd (index_matches pd))) k l = Played s
                    \<and> map fst (row_teams (red_row s)) = team_numbers (red m)
                    \<and> map fst (row_teams (blue_row s)) = team_numbers (blue m))))"
proof -
  let ?b = "fst (index_matches pd)" and ?g = "grand_final (snd (index_matches pd))"
  let ?n = "nickMap td"
  have n: "renderBracketTree td None = NoPlayoffMatches"
    by (simp add: renderBracketTree_def)
  have e: "renderBracketTree td (Some []) = NoPlayoffMatches"
    by (simp add: renderBracketTree_def)
  have 1: "pd \<noteq> [] \<longrightarrow> renderBracketTree td (Some pd) =
           BracketTree
             (map (\<lambda>(n, l). slot ?n ?b ?g (SetNum n) l)
                [(1, ''M1''), (2, ''M2''), (3, ''M3''), (4, ''M4''), (7, ''M7''), (8, ''M8''),
                 (11, ''M11'')])
             (slot ?n ?b ?g SetF ''Final'')
             (map (\<lambda>(n, l). slot ?n ?b ?g (SetNum n) l)
                [(5, ''M5''), (6, ''M6''), (9, ''M9''), (10, ''M10''), (12, ''M12''),
                 (13, ''M13'')])"
    by (cases pd) (simp_all add: renderBracketTree_def Let_def)
  have 2: "\<forall>n. latest_replay (slot_match ?b ?g (SetNum n)) (set_candidates n pd)"
    by (simp add: slot_match_def bySet_latest)
  have 3: "latest_replay (slot_match ?b ?g SetF) (final_candidates pd)"
    by (simp add: slot_match_def gf_latest)
  have 4: "\<forall>k l. (slot_match ?b ?g k = None) = (slot ?n ?b ?g k l = TBD l (SET_DESCRIPTIONS k))"
    by (simp add: slot_def Let_def split: option.splits)
  have 5: "\<forall>k l m. slot_match ?b ?g k = Some m \<longrightarrow>
                (\<exists>s. slot ?n ?b ?g k l = Played s
                    \<and> map fst (row_teams (red_row s)) = team_numbers (red m)
                    \<and> map fst (row_teams (blue_row s)) = team_numbers (blue m))"
    by (simp add: slot_def Let_def teamsHtml_def comp_def)
  from n e 1 2 3 4 5 show ?thesis by blast
qed

text \<open>
  Set 1 was played twice and the final once (the final's \<open>set_number\<close> is 1 as
  well): slot M1 shows the replay, the Grand Final shows the final, slot M2 shows TBD.
  With no list, and with an empty list while teams are loaded, only the message shows.
\<close>

theorem bracket_slots_show_latest_replay_witness:
  "[sample_match ''upper'' 1 1 [] 70 70, sample_match ''upper'' 1 2 ''red'' 90 60,
    sample_match ''final'' 1 1 ''blue'' 80 85] \<noteq> []
   \<and> slot_match
        (fst (index_matches
           [sample_match ''upper'' 1 1 [] 70 70, sample_match ''upper'' 1 2 ''red'' 90 60,
            sample_match ''final'' 1 1 ''blue'' 80 85]))
        (grand_final (snd (index_matches
           [sample_match ''upper'' 1 1 [] 70 70, sample_match ''upper'' 1 2 ''red'' 90 60,
            sample_match ''final'' 1 1 ''blue'' 80 85])))
        (SetNum 1)
       = Some (sample_match ''upper'' 1 2 ''red'' 90 60)
   \<and> slot_match
        (fst (index_matches
           [sample_match ''upper'' 1 1 [] 70 70, sample_match ''upper'' 1 2 ''red'' 90 60,
            sample_match ''final'' 1 1 ''blue'' 80 85]))
        (grand_final (snd (index_matches
           [sample_match ''upper'' 1 1 [] 70 70, sample_match ''upper'' 1 2 ''red'' 90 60,
            sample_match ''final'' 1 1 ''blue'' 80 85])))
        SetF
       = Some (sample_match ''final'' 1 1 ''blue'' 80 85)
   \<and> slot Map.empty
        (fst (index_matches
           [sample_match ''upper'' 1 1 [] 70 70, sample_match ''upper'' 1 2 ''red'' 90 60,
            sample_match ''final'' 1 1 ''blue'' 80 85]))
        (grand_final (snd (index_matches
           [sample_match ''upper'' 1 1 [] 70 70, sample_match ''upper'' 1 2 ''red'' 90 60,
            sample_match ''final'' 1 1 ''blue'' 80 85])))
        (SetNum 2) ''M2''
       = TBD ''M2'' ''#4 vs #5''
   \<and> renderBracketTree None None = NoPlayoffMatches
   \<and> renderBracketTree (Some [sample_team (JNum 1) 254]) (Some []) = NoPlayoffMatches"
proof -
  let ?pd = "[sample_match ''upper'' 1 1 [] 70 70, sample_match ''upper'' 1 2 ''red'' 90 60,
              sample_match ''final'' 1 1 ''blue'' 80 85]"
  let ?b = "fst (index_matches ?pd)" and ?g = "grand_final (snd (index_matches ?pd))"
  have h: "?pd \<noteq> []" by simp
  have i: "index_matches ?pd
     = ([1 \<mapsto> sample_match ''upper'' 1 2 ''red'' 90 60], [sample_match ''final'' 1 1 ''blue'' 80 85])"
    by (simp add: index_matches_def index_match_def sample_match_def Let_def)
  have e1: "slot_match ?b ?g (SetNum 1) = Some (sample_match ''upper'' 1 2 ''red'' 90 60)"
    by (simp add: i slot_match_def)
  have e2: "slot_match ?b ?g SetF = Some (sample_match ''final'' 1 1 ''blue'' 80 85)"
    by (simp add: i slot_match_def grand_final_def)
  have e3: "slot_match ?b ?g (SetNum 2) = None"
    by (simp add: i slot_match_def)
  note t = bracket_slots_show_latest_replay [of None ?pd]
  note t' = bracket_slots_show_latest_replay [of "Some [sample_team (JNum 1) 254]" ?pd]
  from t h
  have "\<forall>k l. (slot_match ?b ?g k = None)
                = (slot (nickMap None) ?b ?g k l = TBD l (SET_DESCRIPTIONS k))"
    by blast
  then have "slot (nickMap None) ?b ?g (SetNum 2) ''M2'' = TBD ''M2'' (SET_DESCRIPTIONS (SetNum 2))"
    using e3 by blast
  then have e4: "slot Map.empty ?b ?g (SetNum 2) ''M2'' = TBD ''M2'' ''#4 vs #5''"
    by (simp add: nickMap_def)
  from t have e5: "renderBracketTree None None = NoPlayoffMatches" by blast
  from t' have e6: "renderBracketTree (Some [sample_team (JNum 1) 254]) (Some []) = NoPlayoffMatches"
    by blast
  from h e1 e2 e4 e5 e6 show ?thesis by blast
qed


lemma slot_Played_shows:
  "slot nicks bySet gf k l = Played sl \<Longrightarrow>
   \<exists>m. slot_match bySet gf k = Some m
      \<and> map fst (row_teams (red_row sl)) = team_numbers (red m)
      \<and> map fst (row_teams (blue_row sl)) = team_numbers (blue m)
      \<and> (''bkt-won'' \<in> set (row_classes (red_row sl)) \<longleftrightarrow> winning_alliance m = ''red'')
      \<and> (''bkt-won'' \<in> set (row_classes (blue_row sl)) \<longleftrightarrow> winning_alliance m = ''blue'')"
  by (cases "slot_match bySet gf k") (auto simp: slot_def Let_def teamsHtml_def comp_def)

lemma slot_match_shown:
  "slot_match bySet gf k = Some m \<Longrightarrow>
   \<exists>sl. slot nicks bySet gf k l = Played sl
      \<and> (''bkt-won'' \<in> set (row_classes (red_row sl)) \<longleftrightarrow> winning_alliance m = ''red'')
      \<and> (''bkt-won'' \<in> set (row_classes (blue_row sl)) \<longleftrightarrow> winning_alliance m = ''blue'')"
  by (simp add: slot_def Let_def)

lemma slot_match_in_input:
  assumes "slot_match (fst (index_matches pd)) (grand_final (snd (index_matches pd))) k = Some m"
  shows "m \<in> set pd"
proof (cases k)
  case (SetNum n)
  with assms bySet_latest [of pd n] have "m \<in> set (set_candidates n pd)"
    by (simp add: slot_match_def latest_replay_def)
  then show ?thesis by (simp add: set_candidates_def)
next
  case SetF
  with assms gf_latest [of pd] have "m \<in> set (final_candidates pd)"
    by (simp add: slot_match_def latest_replay_def)
  then show ?thesis by (simp add: final_candidates_def)
qed

lemma tree_slots_render:
  "pd \<noteq> [] \<Longrightarrow>
   tree_slots (renderBracketTree td (Some pd)) =
     map (\<lambda>(k, l). slot (nickMap td) (fst (index_matches pd))
                     (grand_final (snd (index_matches pd))) k l) slot_keys"
  by (cases pd) (simp_all add: renderBracketTree_def slot_keys_def Let_def)

lemma tree_slots_nth:
  "pd \<noteq> [] \<Longrightarrow> i < length slot_keys \<Longrightarrow>
   tree_slots (renderBracketTree td (Some pd)) ! i =
     slot (nickMap td) (fst (index_matches pd)) (grand_final (snd (index_matches pd)))
       (fst (slot_keys ! i)) (snd (slot_keys ! i))"
  by (simp add: tree_slots_render split_beta)

text \<open>
  C4. The playoff renderers never compute a winner. \<open>renderAlliance\<close> renders both
  colours of every match, and marks the alliance (\<open>winner\<close>, \<open>winner-text\<close>) if and
  only if the match's \<open>winning_alliance\<close> is that colour; a bracket slot marks its red
  row (\<open>bkt-won\<close>) if and only if \<open>winning_alliance\<close> is \<open>'red'\<close> and its blue row
  if and only if it is \<open>'blue'\<close>. The match is arbitrary, so the scores play no part:
  putting any other scores into the match leaves the marks of \<open>renderAlliance\<close> as
  they were.

  For the bracket as \<open>renderBracketTree\<close> draws it from a playoff list that is not
  empty: its slots are those of \<open>slot_keys\<close>, in order; a slot that shows a match
  shows one of the matches of the list, the one its set selects, with that match's
  teams, and its rows are marked by that match's \<open>winning_alliance\<close> as said; and a
  match that a slot's set selects is shown in that slot, so marked.
\<close>

theorem winner_is_winning_alliance:
  "(color = ''red'' \<or> color = ''blue'' \<longrightarrow> (\<exists>h. renderAlliance hf color m = Inr h))
   \<and> (renderAlliance hf color m = Inr h \<longrightarrow>
        (''winner'' \<in> set (div_classes h) \<longleftrightarrow> winning_alliance m = color)
        \<and> (''winner-text'' \<in> set (score_classes h) \<longleftrightarrow> winning_alliance m = color))
   \<and> (slot_match bySet gf k = Some m \<longrightarrow>
        (\<exists>s. slot nicks bySet gf k label = Played s
           \<and> (''bkt-won'' \<in> set (row_classes (red_row s)) \<longleftrightarrow> winning_alliance m = ''red'')
           \<and> (''bkt-won'' \<in> set (row_classes (blue_row s)) \<longleftrightarrow> winning_alliance m = ''blue'')))
   \<and> (renderAlliance hf color m = Inr h \<longrightarrow>
        (\<exists>h'. renderAlliance hf color
                 (m\<lparr>red := (red m)\<lparr>score := rs\<rparr>, blue := (blue m)\<lparr>score := bs\<rparr>\<rparr>) = Inr h'
           \<and> div_classes h' = div_classes h \<and> score_classes h' = score_classes h))
   \<and> (pd \<noteq> [] \<longrightarrow>
        tree_slots (renderBracketTree td (Some pd)) =
          map (\<lambda>(k, l). slot (nickMap td) (fst (index_matches pd))
                          (grand_final (snd (index_matches pd))) k l) slot_keys)
   \<and> (pd \<noteq> [] \<longrightarrow> i < length slot_keys \<longrightarrow>
        tree_slots (renderBracketTree td (Some pd)) ! i = Played sl \<longrightarrow>
        (\<exists>x \<in> set pd.
            slot_match (fst (index_matches pd)) (grand_final (snd (index_matches pd)))
              (fst (slot_keys ! i)) = Some x
          \<and> map fst (row_teams (red_row sl)) = team_numbers (red x)
          \<and> map fst (row_teams (blue_row sl)) = team_numbers (blue x)
          \<and> (''bkt-won'' \<in> set (row_classes (red_row sl)) \<longleftrightarrow> winning_alliance x = ''red'')
          \<and> (''bkt-won'' \<in> set (row_classes (blue_row sl)) \<longleftrightarrow> winning_alliance x = ''blue'')))
   \<and> (pd \<noteq> [] \<longrightarrow> i < length slot_keys \<longrightarrow>
        slot_match (fst (index_matches pd)) (grand_final (snd (index_matches pd)))
          (fst (slot_keys ! i)) = Some y \<longrightarrow>
        (\<exists>s. tree_slots (renderBracketTree td (Some pd)) ! i = Played s
           \<and> (''bkt-won'' \<in> set (row_classes (red_row s)) \<longleftrightarrow> winning_alliance y = ''red'')
           \<and> (''bkt-won'' \<in> set (row_classes (blue_row s)) \<longleftrightarrow> winning_alliance y = ''blue'')))"
proof -
  let ?b = "fst (index_matches pd)" and ?g = "grand_final (snd (index_matches pd))"
  have 1: "color = ''red'' \<or> color = ''blue'' \<longrightarrow> (\<exists>h. renderAlliance hf color m = Inr h)"
    by (auto simp: renderAlliance_def Let_def)
  have 2: "renderAlliance hf color m = Inr h \<longrightarrow>
        (''winner'' \<in> set (div_classes h) \<longleftrightarrow> winning_alliance m = color)
        \<and> (''winner-text'' \<in> set (score_classes h) \<longleftrightarrow> winning_alliance m = color)"
  proof
    assume r: "renderAlliance hf color m = Inr h"
    from renderAlliance_cases [OF r] r
    show "(''winner'' \<in> set (div_classes h) \<longleftrightarrow> winning_alliance m = color)
        \<and> (''winner-text'' \<in> set (score_classes h) \<longleftrightarrow> winning_alliance m = color)"
      by (auto simp: renderAlliance_def Let_def)
  qed
  have 3: "slot_match bySet gf k = Some m \<longrightarrow>
        (\<exists>s. slot nicks bySet gf k label = Played s
           \<and> (''bkt-won'' \<in> set (row_classes (red_row s)) \<longleftrightarrow> winning_alliance m = ''red'')
           \<and> (''bkt-won'' \<in> set (row_classes (blue_row s)) \<longleftrightarrow> winning_alliance m = ''blue''))"
    using slot_match_shown [of bySet gf k m nicks label] by blast
  have 4: "renderAlliance hf color m = Inr h \<longrightarrow>
        (\<exists>h'. renderAlliance hf color
                 (m\<lparr>red := (red m)\<lparr>score := rs\<rparr>, blue := (blue m)\<lparr>score := bs\<rparr>\<rparr>) = Inr h'
           \<and> div_classes h' = div_classes h \<and> score_classes h' = score_classes h)"
  proof
    assume r: "renderAlliance hf color m = Inr h"
    from renderAlliance_cases [OF r] r
    show "\<exists>h'. renderAlliance hf color
                 (m\<lparr>red := (red m)\<lparr>score := rs\<rparr>, blue := (blue m)\<lparr>score := bs\<rparr>\<rparr>) = Inr h'
           \<and> div_classes h' = div_classes h \<and> score_classes h' = score_classes h"
      by (auto simp: renderAlliance_def Let_def)
  qed
  have 5: "pd \<noteq> [] \<longrightarrow>
        tree_slots (renderBracketTree td (Some pd)) =
          map (\<lambda>(k, l). slot (nickMap td) ?b ?g k l) slot_keys"
    by (simp add: tree_slots_render)
  have 6: "pd \<noteq> [] \<longrightarrow> i < length slot_keys \<longrightarrow>
        tree_slots (renderBracketTree td (Some pd)) ! i = Played sl \<longrightarrow>
        (\<exists>x \<in> set pd.
            slot_match ?b ?g (fst (slot_keys ! i)) = Some x
          \<and> map fst (row_teams (red_row sl)) = team_numbers (red x)
          \<and> map fst (row_teams (blue_row sl)) = team_numbers (blue x)
          \<and> (''bkt-won'' \<in> set (row_classes (red_row sl)) \<longleftrightarrow> winning_alliance x = ''red'')
          \<and> (''bkt-won'' \<in> set (row_classes (blue_row sl)) \<longleftrightarrow> winning_alliance x = ''blue''))"
  proof (intro impI)
    assume ne: "pd \<noteq> []" and i: "i < length slot_keys"
      and p: "tree_slots (renderBracketTree td (Some pd)) ! i = Played sl"
    from p tree_slots_nth [OF ne i, of td]
    have "slot (nickMap td) ?b ?g (fst (slot_keys ! i)) (snd (slot_keys ! i)) = Played sl"
      by simp
    from slot_Played_shows [OF this]
    obtain x where x: "slot_match ?b ?g (fst (slot_keys ! i)) = Some x"
      and rest: "map fst (row_teams (red_row sl)) = team_numbers (red x)"
        "map fst (row_teams (blue_row sl)) = team_numbers (blue x)"
        "''bkt-won'' \<in> set (row_classes (red_row sl)) \<longleftrightarrow> winning_alliance x = ''red''"
        "''bkt-won'' \<in> set (row_classes (blue_row sl)) \<longleftrightarrow> winning_alliance x = ''blue''"
      by blast
    from slot_match_in_input [OF x] have "x \<in> set pd" .
    with x rest show "\<exists>x \<in> set pd.
            slot_match ?b ?g (fst (slot_keys ! i)) = Some x
          \<and> map fst (row_teams (red_row sl)) = team_numbers (red x)
          \<and> map fst (row_teams (blue_row sl)) = team_numbers (blue x)
          \<and> (''bkt-won'' \<in> set (row_classes (red_row sl)) \<longleftrightarrow> winning_alliance x = ''red'')
          \<and> (''bkt-won'' \<in> set (row_classes (blue_row sl)) \<longleftrightarrow> winning_alliance x = ''blue'')"
      by blast
  qed
  have 7: "pd \<noteq> [] \<longrightarrow> i < length slot_keys \<longrightarrow>
        slot_match ?b ?g (fst (slot_keys ! i)) = Some y \<longrightarrow>
        (\<exists>s. tree_slots (renderBracketTree td (Some pd)) ! i = Played s
           \<and> (''bkt-won'' \<in> set (row_classes (red_row s)) \<longleftrightarrow> winning_alliance y = ''red'')
           \<and> (''bkt-won'' \<in> set (row_classes (blue_row s)) \<longleftrightarrow> winning_alliance y = ''blue''))"
  proof (intro impI)
    assume ne: "pd \<noteq> []" and i: "i < length slot_keys"
      and y: "slot_match ?b ?g (fst (slot_keys ! i)) = Some y"
    from slot_match_shown [OF y, of "nickMap td" "snd (slot_keys ! i)"] tree_slots_nth [OF ne i, of td]
    show "\<exists>s. tree_slots (renderBracketTree td (Some pd)) ! i = Played s
           \<and> (''bkt-won'' \<in> set (row_classes (red_row s)) \<longleftrightarrow> winning_alliance y = ''red'')
           \<and> (''bkt-won'' \<in> set (row_classes (blue_row s)) \<longleftrightarrow> winning_alliance y = ''blue'')"
      by simp
  qed
  from 1 2 3 4 5 6 7 show ?thesis by blast
qed

text \<open>
  A match that red lost 50 to 80 on the scoreboard but that names red the winner: on its
  card red is marked, and in the bracket drawn from the list that holds just this match
  its slot M1 marks the red row and not the blue one.
\<close>

theorem winner_is_winning_alliance_witness:
  "score (red (sample_match ''upper'' 1 1 ''red'' 50 80))
     < score (blue (sample_match ''upper'' 1 1 ''red'' 50 80))
   \<and> winning_alliance (sample_match ''upper'' 1 1 ''red'' 50 80) = ''red''
   \<and> renderAlliance False ''red'' (sample_match ''upper'' 1 1 ''red'' 50 80)
       = Inr \<lparr>div_classes = [''alliance'', ''red'', ''winner''],
              badges = [\<lparr>badge_classes = [''team-badge'', ''red-badge''], badge_country = [],
                         badge_team = 254, badge_tooltip = None\<rparr>,
                        \<lparr>badge_classes = [''team-badge'', ''red-badge''], badge_country = [],
                         badge_team = 1678, badge_tooltip = None\<rparr>,
                        \<lparr>badge_classes = [''team-badge'', ''red-badge''], badge_country = [],
                         badge_team = 118, badge_tooltip = None\<rparr>],
              opr_text = CHR 0xCE # CHR 0xA3 # '' OPR: 0'',
              score_classes = [''alliance-score'', ''winner-text''],
              score_text = Some 50\<rparr>
   \<and> ''winner'' \<in> set [''alliance'', ''red'', ''winner'']
   \<and> [sample_match ''upper'' 1 1 ''red'' 50 80] \<noteq> []
   \<and> (0::nat) < length slot_keys
   \<and> slot_keys ! 0 = (SetNum 1, ''M1'')
   \<and> sample_match ''upper'' 1 1 ''red'' 50 80 \<in> set [sample_match ''upper'' 1 1 ''red'' 50 80]
   \<and> tree_slots (renderBracketTree None (Some [sample_match ''upper'' 1 1 ''red'' 50 80])) ! 0
       = Played
           \<lparr>slot_classes = [''bkt-slot'', ''bkt-decided''],
            slot_header = ''M1'',
            red_row = \<lparr>row_classes = [''bkt-row'', ''bkt-red'', ''bkt-won''], row_seed = ''#1'',
                       row_teams = [(254, None), (1678, None), (118, None)],
                       row_score = Some 50\<rparr>,
            blue_row = \<lparr>row_classes = [''bkt-row'', ''bkt-blue''], row_seed = ''#8'',
                        row_teams = [(330, None), (973, None), (1323, None)],
                        row_score = Some 80\<rparr>,
            slot_desc = ''#1 vs #8''\<rparr>
   \<and> ''bkt-won'' \<in> set [''bkt-row'', ''bkt-red'', ''bkt-won'']
   \<and> ''bkt-won'' \<notin> set [''bkt-row'', ''bkt-blue'']"
proof -
  let ?m = "sample_match ''upper'' 1 1 ''red'' 50 80"
  let ?h = "\<lparr>div_classes = [''alliance'', ''red'', ''winner''],
              badges = [\<lparr>badge_classes = [''team-badge'', ''red-badge''], badge_country = [],
                         badge_team = 254, badge_tooltip = None\<rparr>,
                        \<lparr>badge_classes = [''team-badge'', ''red-badge''], badge_country = [],
                         badge_team = 1678, badge_tooltip = None\<rparr>,
                        \<lparr>badge_classes = [''team-badge'', ''red-badge''], badge_country = [],
                         badge_team = 118, badge_tooltip = None\<rparr>],
              opr_text = CHR 0xCE # CHR 0xA3 # '' OPR: 0'',
              score_classes = [''alliance-score'', ''winner-text''],
              score_text = Some 50\<rparr>"
  let ?sl = "\<lparr>slot_classes = [''bkt-slot'', ''bkt-decided''],
            slot_header = ''M1'',
            red_row = \<lparr>row_classes = [''bkt-row'', ''bkt-red'', ''bkt-won''], row_seed = ''#1'',
                       row_teams = [(254, None), (1678, None), (118, None)],
                       row_score = Some 50\<rparr>,
            blue_row = \<lparr>row_classes = [''bkt-row'', ''bkt-blue''], row_seed = ''#8'',
                        row_teams = [(330, None), (973, None), (1323, None)],
                        row_score = Some 80\<rparr>,
            slot_desc = ''#1 vs #8''\<rparr>"
  have h: "renderAlliance False ''red'' ?m = Inr ?h"
    by (simp add: renderAlliance_def sample_match_def sample_alliance_def badge_def
          num_to_string_def upt_rec Let_def)
  have w: "winning_alliance ?m = ''red''"
    and s: "score (red ?m) < score (blue ?m)"
    by (simp_all add: sample_match_def sample_alliance_def)
  have ne: "[?m] \<noteq> []" by simp
  have i: "(0::nat) < length slot_keys" and k: "slot_keys ! 0 = (SetNum 1, ''M1'')"
    by (simp_all add: slot_keys_def)
  have im: "index_matches [?m] = ([1 \<mapsto> ?m], [])"
    by (simp add: index_matches_def index_match_def sample_match_def Let_def)
  have sm: "slot_match (fst (index_matches [?m])) (grand_final (snd (index_matches [?m])))
              (fst (slot_keys ! 0)) = Some ?m"
    by (simp add: im k slot_match_def)
  have p0: "tree_slots (renderBracketTree None (Some [?m])) ! 0
              = slot Map.empty [1 \<mapsto> ?m] None (SetNum 1) ''M1''"
    by (simp add: renderBracketTree_def im grand_final_def nickMap_def Let_def)
  have p1: "slot Map.empty [1 \<mapsto> ?m] None (SetNum 1) ''M1'' = Played ?sl"
    by (simp add: slot_def slot_match_def teamsHtml_def sample_match_def sample_alliance_def
          num_to_string_def Let_def)
  from p0 p1 have p: "tree_slots (renderBracketTree None (Some [?m])) ! 0 = Played ?sl"
    by simp
  note t = winner_is_winning_alliance
    [where color = "''red''" and hf = False and m = ?m and h = ?h and pd = "[?m]" and td = None
       and i = 0 and sl = ?sl and y = ?m]
  from t h w s ne i k sm p show ?thesis by simp
qed


section \<open>Properties of match navigation\<close>

lemma pbpPrev_bounds: "index_in_bounds (pbpData st) (pbpIndex st) \<Longrightarrow>
    index_in_bounds (pbpData (pbpPrev st)) (pbpIndex (pbpPrev st))"
  by (auto simp: pbpPrev_def index_in_bounds_def split: option.splits)

lemma pbpNext_bounds: "index_in_bounds (pbpData st) (pbpIndex st) \<Longrightarrow>
    index_in_bounds (pbpData (pbpNext st)) (pbpIndex (pbpNext st))"
  by (auto simp: pbpNext_def index_in_bounds_def split: option.splits)

lemma bdPrev_bounds: "index_in_bounds (bdData st) (bdIndex st) \<Longrightarrow>
    index_in_bounds (bdData (bdPrev st)) (bdIndex (bdPrev st))"
  by (auto simp: bdPrev_def index_in_bounds_def split: option.splits)

lemma bdNext_bounds: "index_in_bounds (bdData st) (bdIndex st) \<Longrightarrow>
    index_in_bounds (bdData (bdNext st)) (bdIndex (bdNext st))"
  by (auto simp: bdNext_def index_in_bounds_def split: option.splits)

lemma pbp_leaves_bd:
  "bdData (pbpPrev st) = bdData st" "bdIndex (pbpPrev st) = bdIndex st"
  "bdData (pbpNext st) = bdData st" "bdIndex (pbpNext st) = bdIndex st"
  by (simp_all add: pbpPrev_def pbpNext_def split: option.splits)

lemma bd_leaves_pbp:
  "pbpData (bdPrev st) = pbpData st" "pbpIndex (bdPrev st) = pbpIndex st"
  "pbpData (bdNext st) = pbpData st" "pbpIndex (bdNext st) = pbpIndex st"
  by (simp_all add: bdPrev_def bdNext_def split: option.splits)

text \<open>
  C9. With a non-empty match list loaded and the play-by-play index within
  \<open>0 .. length - 1\<close>, it is still within these bounds after each of \<open>pbpPrev\<close>,
  \<open>pbpNext\<close>, \<open>bdPrev\<close> and \<open>bdNext\<close>, and likewise the breakdown index.
  \<open>pbpPrev\<close> and \<open>bdPrev\<close> at index 0, and \<open>pbpNext\<close> and \<open>bdNext\<close> at the last
  index, leave the state as it is.
\<close>

theorem navigation_keeps_bounds:
  "(index_in_bounds (pbpData st) (pbpIndex st) \<longrightarrow>
      index_in_bounds (pbpData (pbpPrev st)) (pbpIndex (pbpPrev st))
    \<and> index_in_bounds (pbpData (pbpNext st)) (pbpIndex (pbpNext st))
    \<and> index_in_bounds (pbpData (bdPrev st)) (pbpIndex (bdPrev st))
    \<and> index_in_bounds (pbpData (bdNext st)) (pbpIndex (bdNext st)))
   \<and> (index_in_bounds (bdData st) (bdIndex st) \<longrightarrow>
      index_in_bounds (bdData (pbpPrev st)) (bdIndex (pbpPrev st))
    \<and> index_in_bounds (bdData (pbpNext st)) (bdIndex (pbpNext st))
    \<and> index_in_bounds (bdData (bdPrev st)) (bdIndex (bdPrev st))
    \<and> index_in_bounds (bdData (bdNext st)) (bdIndex (bdNext st)))
   \<and> (pbpIndex st = 0 \<longrightarrow> pbpPrev st = st)
   \<and> (bdIndex st = 0 \<longrightarrow> bdPrev st = st)
   \<and> (pbpData st = Some ms \<longrightarrow> pbpIndex st = int (length ms) - 1 \<longrightarrow> pbpNext st = st)
   \<and> (bdData st = Some ms' \<longrightarrow> bdIndex st = int (length ms') - 1 \<longrightarrow> bdNext st = st)"
proof -
  have 1: "index_in_bounds (pbpData st) (pbpIndex st) \<longrightarrow>
      index_in_bounds (pbpData (pbpPrev st)) (pbpIndex (pbpPrev st))
    \<and> index_in_bounds (pbpData (pbpNext st)) (pbpIndex (pbpNext st))
    \<and> index_in_bounds (pbpData (bdPrev st)) (pbpIndex (bdPrev st))
    \<and> index_in_bounds (pbpData (bdNext st)) (pbpIndex (bdNext st))"
    by (simp add: pbpPrev_bounds pbpNext_bounds bd_leaves_pbp)
  have 2: "index_in_bounds (bdData st) (bdIndex st) \<longrightarrow>
      index_in_bounds (bdData (pbpPrev st)) (bdIndex (pbpPrev st))
    \<and> index_in_bounds (bdData (pbpNext st)) (bdIndex (pbpNext st))
    \<and> index_in_bounds (bdData (bdPrev st)) (bdIndex (bdPrev st))
    \<and> index_in_bounds (bdData (bdNext st)) (bdIndex (bdNext st))"
    by (simp add: bdPrev_bounds bdNext_bounds pbp_leaves_bd)
  have 3: "pbpIndex st = 0 \<longrightarrow> pbpPrev st = st" by (simp add: pbpPrev_def)
  have 4: "bdIndex st = 0 \<longrightarrow> bdPrev st = st" by (simp add: bdPrev_def)
  have 5: "pbpData st = Some ms \<longrightarrow> pbpIndex st = int (length ms) - 1 \<longrightarrow> pbpNext st = st"
    by (simp add: pbpNext_def)
  have 6: "bdData st = Some ms' \<longrightarrow> bdIndex st = int (length ms') - 1 \<longrightarrow> bdNext st = st"
    by (simp add: bdNext_def)
  from 1 2 3 4 5 6 show ?thesis by blast
qed

theorem navigation_keeps_bounds_witness:
  "index_in_bounds (Some [''Q1'', ''Q2'', ''Q3'']) 2
   \<and> index_in_bounds (Some [''Q1'', ''Q2'', ''Q3'']) 0
   \<and> pbpNext \<lparr>pbpData = Some [''Q1'', ''Q2'', ''Q3''], pbpIndex = 2, pbp_match_select = 2,
               bdData = Some [''Q1'', ''Q2'', ''Q3''], bdIndex = 0, bd_match_select = 0\<rparr>
      = \<lparr>pbpData = Some [''Q1'', ''Q2'', ''Q3''], pbpIndex = 2, pbp_match_select = 2,
         bdData = Some [''Q1'', ''Q2'', ''Q3''], bdIndex = 0, bd_match_select = 0\<rparr>
   \<and> bdPrev \<lparr>pbpData = Some [''Q1'', ''Q2'', ''Q3''], pbpIndex = 2, pbp_match_select = 2,
              bdData = Some [''Q1'', ''Q2'', ''Q3''], bdIndex = 0, bd_match_select = 0\<rparr>
      = \<lparr>pbpData = Some [''Q1'', ''Q2'', ''Q3''], pbpIndex = 2, pbp_match_select = 2,
         bdData = Some [''Q1'', ''Q2'', ''Q3''], bdIndex = 0, bd_match_select = 0\<rparr>
   \<and> pbpIndex (pbpPrev \<lparr>pbpData = Some [''Q1'', ''Q2'', ''Q3''], pbpIndex = 2, pbp_match_select = 2,
            bdData = Some [''Q1'', ''Q2'', ''Q3''], bdIndex = 0, bd_match_select = 0\<rparr>) = 1
   \<and> index_in_bounds
        (pbpData (pbpPrev \<lparr>pbpData = Some [''Q1'', ''Q2'', ''Q3''], pbpIndex = 2, pbp_match_select = 2,
            bdData = Some [''Q1'', ''Q2'', ''Q3''], bdIndex = 0, bd_match_select = 0\<rparr>))
        (pbpIndex (pbpPrev \<lparr>pbpData = Some [''Q1'', ''Q2'', ''Q3''], pbpIndex = 2, pbp_match_select = 2,
            bdData = Some [''Q1'', ''Q2'', ''Q3''], bdIndex = 0, bd_match_select = 0\<rparr>))
   \<and> bdIndex (bdNext \<lparr>pbpData = Some [''Q1'', ''Q2'', ''Q3''], pbpIndex = 2, pbp_match_select = 2,
            bdData = Some [''Q1'', ''Q2'', ''Q3''], bdIndex = 0, bd_match_select = 0\<rparr>) = 1
   \<and> index_in_bounds
        (bdData (bdNext \<lparr>pbpData = Some [''Q1'', ''Q2'', ''Q3''], pbpIndex = 2, pbp_match_select = 2,
            bdData = Some [''Q1'', ''Q2'', ''Q3''], bdIndex = 0, bd_match_select = 0\<rparr>))
        (bdIndex (bdNext \<lparr>pbpData = Some [''Q1'', ''Q2'', ''Q3''], pbpIndex = 2, pbp_match_select = 2,
            bdData = Some [''Q1'', ''Q2'', ''Q3''], bdIndex = 0, bd_match_select = 0\<rparr>))"
proof -
  let ?st = "\<lparr>pbpData = Some [''Q1'', ''Q2'', ''Q3''], pbpIndex = 2, pbp_match_select = 2,
            bdData = Some [''Q1'', ''Q2'', ''Q3''], bdIndex = 0, bd_match_select = 0\<rparr>"
  have h1: "index_in_bounds (pbpData ?st) (pbpIndex ?st)"
    and h2: "index_in_bounds (bdData ?st) (bdIndex ?st)"
    by (simp_all add: index_in_bounds_def)
  have i: "pbpIndex (pbpPrev ?st) = 1" "bdIndex (bdNext ?st) = 1"
    by (simp_all add: pbpPrev_def bdNext_def)
  from navigation_keeps_bounds [of ?st "[''Q1'', ''Q2'', ''Q3'']" "[''Q1'', ''Q2'', ''Q3'']"] h1 h2 i
  show ?thesis by simp
qed

end
